theory Spec2Isabelle
  imports Main "HOL-Library.AList"
begin

section \<open>JavaScript strings\<close>

text \<open>
  Strings are lists of characters. The helpers below are the methods of
  \<^verbatim>\<open>String.prototype\<close> that the sources call, on the Latin-1 range that
  \<^typ>\<open>char\<close> covers.
\<close>

definition startsWith :: "string \<Rightarrow> string \<Rightarrow> bool" where
  \<comment> \<open>\<^verbatim>\<open>s.startsWith(p)\<close>\<close>
  "startsWith p s = (take (length p) s = p)"

definition endsWith :: "string \<Rightarrow> string \<Rightarrow> bool" where
  \<comment> \<open>\<^verbatim>\<open>s.endsWith(e)\<close>\<close>
  "endsWith e s = (length e \<le> length s \<and> drop (length s - length e) s = e)"

fun str_includes :: "string \<Rightarrow> string \<Rightarrow> bool" where
  \<comment> \<open>\<^verbatim>\<open>s.includes(t)\<close>\<close>
  "str_includes [] t = (t = [])"
| "str_includes (c # s) t = (startsWith t (c # s) \<or> str_includes s t)"

definition isWhiteSpace :: "char \<Rightarrow> bool" where
  \<comment> \<open>white space and line terminators, as \<^verbatim>\<open>trim\<close> and \<^verbatim>\<open>\s\<close> take them\<close>
  "isWhiteSpace c = (c \<in> set [CHR 0x09, CHR 0x0A, CHR 0x0B, CHR 0x0C, CHR 0x0D, CHR 0x20, CHR 0xA0])"

definition trim :: "string \<Rightarrow> string" where
  "trim s = rev (dropWhile isWhiteSpace (rev (dropWhile isWhiteSpace s)))"

definition toLowerChar :: "char \<Rightarrow> char" where
  "toLowerChar c =
     (let n = (of_char c :: nat)
      in if (65 \<le> n \<and> n \<le> 90) \<or> (192 \<le> n \<and> n \<le> 222 \<and> n \<noteq> 215) then char_of (n + 32) else c)"

definition toLowerCase :: "string \<Rightarrow> string" where
  "toLowerCase s = map toLowerChar s"

fun split_on :: "char \<Rightarrow> string \<Rightarrow> string list" where
  \<comment> \<open>\<^verbatim>\<open>s.split(c)\<close> for a one-character separator\<close>
  "split_on c [] = [[]]"
| "split_on c (x # xs) =
     (if x = c then [] # split_on c xs
      else (case split_on c xs of [] \<Rightarrow> [[x]] | w # ws \<Rightarrow> (x # w) # ws))"

fun split_ws_go :: "bool \<Rightarrow> string \<Rightarrow> string \<Rightarrow> string list" where
  "split_ws_go sep cur [] = [rev cur]"
| "split_ws_go sep cur (x # xs) =
     (if isWhiteSpace x
      then (if sep then split_ws_go True cur xs else rev cur # split_ws_go True [] xs)
      else split_ws_go False (x # cur) xs)"

definition split_ws :: "string \<Rightarrow> string list" where
  \<comment> \<open>\<^verbatim>\<open>s.split(/\s+/)\<close>: the fields between maximal runs of white space\<close>
  "split_ws s = split_ws_go False [] s"

fun showNat :: "nat \<Rightarrow> string" where
  \<comment> \<open>a number that is not negative, as a template literal prints it\<close>
  "showNat n = (if n < 10 then [char_of (48 + n)] else showNat (n div 10) @ [char_of (48 + n mod 10)])"

fun join :: "string \<Rightarrow> string list \<Rightarrow> string" where
  \<comment> \<open>\<^verbatim>\<open>xs.join(sep)\<close>\<close>
  "join sep [] = []"
| "join sep [x] = x"
| "join sep (x # y # ys) = x @ sep @ join sep (y # ys)"

section \<open>Scanner registry (\<^verbatim>\<open>ScannerManager\<close>)\<close>

record ScannerInfo =
  device :: string
  vendor :: string
  model :: string
  scanner_type :: string
  available :: bool

text \<open>
  The two private fields of the class. Dates are milliseconds since the epoch;
  \<^verbatim>\<open>null\<close> is \<^const>\<open>None\<close>. Logging has no effect on either field and is left out.
\<close>

record ScannerManager =
  cachedScanner :: "ScannerInfo option"
  lastSuccessfulScan :: "int option"

definition getCachedScanner :: "int \<Rightarrow> ScannerManager \<Rightarrow> ScannerInfo option" where
  \<comment> \<open>\<open>now\<close> is the value of \<^verbatim>\<open>Date.now()\<close>\<close>
  "getCachedScanner now st =
     (case cachedScanner st of
        None \<Rightarrow> None
      | Some s \<Rightarrow>
          (case lastSuccessfulScan st of
             None \<Rightarrow> None
           | Some t \<Rightarrow>
               (let hourAgo = now - 60 * 60 * 1000
                in if t > hourAgo then Some s else None)))"

definition markSuccessfulScan :: "ScannerInfo \<Rightarrow> int \<Rightarrow> ScannerManager \<Rightarrow> ScannerManager" where
  \<comment> \<open>\<open>now\<close> is the value of \<^verbatim>\<open>new Date()\<close>\<close>
  "markSuccessfulScan scanner now st =
     st\<lparr>cachedScanner := Some scanner, lastSuccessfulScan := Some now\<rparr>"

text \<open>
  The outcome of \<^verbatim>\<open>execAsync\<close>: the promise rejects with an \<^verbatim>\<open>Error\<close> whose
  message is given (\<^const>\<open>Inl\<close>), or resolves with the two output streams.
\<close>

type_synonym exec_result = "string + string \<times> string"

text \<open>
  The regular expression of \<^verbatim>\<open>detectScanners\<close> is run by the platform's engine.
  Its result on a line is a parameter \<open>rx\<close>: \<^const>\<open>None\<close> when \<^verbatim>\<open>line.match\<close>
  returns \<^verbatim>\<open>null\<close>, otherwise the first capture group and the second one (which may
  be undefined).
\<close>

type_synonym device_regex = "string \<Rightarrow> (string \<times> string option) option"

definition parseScannerLine :: "device_regex \<Rightarrow> string \<Rightarrow> ScannerInfo option" where
  "parseScannerLine rx line =
     (case rx line of
        None \<Rightarrow> None
      | Some (g1, g2) \<Rightarrow>
          if g1 = [] then None
          else
            (let dev = trim g1;
                 description = (case g2 of
                                  None \<Rightarrow> ''Unknown Scanner''
                                | Some d \<Rightarrow> if d = [] then ''Unknown Scanner'' else trim d);
                 descParts = split_ws description;
                 d0 = hd descParts;
                 (vend, modl) =
                   (if d0 \<noteq> [] then
                      (d0,
                       if length descParts \<ge> 2 \<and> descParts ! 1 \<noteq> []
                          \<and> toLowerCase (descParts ! 1) = toLowerCase d0
                       then (let m = join '' '' (drop 2 descParts) in if m = [] then d0 else m)
                       else (let m = join '' '' (drop 1 descParts) in if m = [] then d0 else m))
                    else (''Unknown'', ''Unknown''));
                 lowerDesc = toLowerCase description;
                 ty = (if str_includes lowerDesc ''flatbed'' then ''flatbed''
                       else if str_includes lowerDesc ''sheet'' \<or> str_includes lowerDesc ''feeder'' then ''sheet-fed''
                       else if str_includes lowerDesc ''multi-function'' then ''multi-function''
                       else ''unknown'')
             in Some \<lparr>device = dev, vendor = vend, model = modl, scanner_type = ty, available = True\<rparr>))"

fun parseLines :: "device_regex \<Rightarrow> string list \<Rightarrow> ScannerInfo list" where
  \<comment> \<open>the \<^verbatim>\<open>for (const line of lines)\<close> loop, collecting what it pushes\<close>
  "parseLines rx [] = []"
| "parseLines rx (line # rest) =
     (if str_includes (toLowerCase line) ''device''
      then (case parseScannerLine rx line of
              Some s \<Rightarrow> s # parseLines rx rest
            | None \<Rightarrow> parseLines rx rest)
      else parseLines rx rest)"

definition detectionError :: "string \<Rightarrow> ScannerInfo list \<times> string option" where
  \<comment> \<open>the outer \<^verbatim>\<open>catch\<close> of \<^verbatim>\<open>detectScanners\<close>\<close>
  "detectionError errorMsg =
     (if str_includes errorMsg ''scanimage: command not found'' \<or> str_includes errorMsg ''not found''
      then ([], Some ''SANE tools not installed. Install with: brew install sane-backends (macOS)'')
      else if str_includes errorMsg ''no SANE devices found''
      then ([], Some ''No SANE devices found. Check scanner connection, power, and permissions.'')
      else ([], Some (''Scanner detection failed: '' @ errorMsg)))"

definition detectScanners ::
  "device_regex \<Rightarrow> exec_result \<Rightarrow> int \<Rightarrow> ScannerManager
     \<Rightarrow> ScannerManager \<times> (ScannerInfo list \<times> string option)" where
  \<comment> \<open>\<open>listing\<close> is the outcome of running \<^verbatim>\<open>scanimage -L\<close>; the result is the pair
      \<^verbatim>\<open>{scanners, error}\<close>\<close>
  "detectScanners rx listing now st =
     (case listing of
        Inl errorMsg \<Rightarrow>
          (case getCachedScanner now st of
             Some cached \<Rightarrow> (st, ([cached], None))
           | None \<Rightarrow> (st, detectionError errorMsg))
      | Inr (stdout, stderr) \<Rightarrow>
          if str_includes stdout ''No scanners were identified''
             \<or> str_includes stderr ''No scanners were identified''
          then (case getCachedScanner now st of
                  Some cached \<Rightarrow> (st, ([cached], None))
                | None \<Rightarrow>
                    (st, ([], Some ''No scanners detected. Make sure your scanner is connected and powered on.'')))
          else if stdout = [] \<or> trim stdout = []
          then (case getCachedScanner now st of
                  Some cached \<Rightarrow> (st, ([cached], None))
                | None \<Rightarrow>
                    (st, ([], Some ''No output from scanner detection. Check if SANE is properly configured.'')))
          else
            (let lines = filter (\<lambda>line. trim line \<noteq> []) (split_on (CHR 0x0A) stdout);
                 scanners = parseLines rx lines
             in if length scanners = 0 \<and> length lines > 0
                then (st, ([], Some (''Could not parse scanner information. Raw output: ''
                                      @ join '' | '' lines)))
                else if length scanners = 0
                then (case getCachedScanner now st of
                        Some cached \<Rightarrow> (st, ([cached], None))
                      | None \<Rightarrow>
                          (st, ([], Some ''No scanners detected. Make sure your scanner is connected and powered on.'')))
                else (st\<lparr>cachedScanner := Some (hd scanners)\<rparr>, (scanners, None))))"

definition attemptFix ::
  "device_regex \<Rightarrow> exec_result \<Rightarrow> int \<Rightarrow> ScannerManager \<Rightarrow> ScannerManager \<times> (bool \<times> string)" where
  \<comment> \<open>The restart and reload commands swallow their own failures and touch neither field;
      what is left is the detection that follows them. The result is
      \<^verbatim>\<open>{success, message}\<close>.\<close>
  "attemptFix rx listing now st =
     (let (st', (scanners, err)) = detectScanners rx listing now st
      in if length scanners > 0
         then (st', (True, ''Successfully detected '' @ showNat (length scanners)
                            @ '' scanner(s) after fix attempt''))
         else (st', (False, ''Fix attempt completed, but no scanners detected. Manual intervention may be required.'')))"

section \<open>File system\<close>

text \<open>
  The part of the file system the program touches: an association list from path to the
  entry found there, in the order in which the operating system enumerates entries. A
  \<^verbatim>\<open>fs\<close> call that throws returns the message of the error on the left.

  An entry carries what \<^verbatim>\<open>fs.statSync\<close> reports for it and two facts that decide
  which calls fail on it. A \<open>dangling\<close> entry is a symbolic link whose target is missing:
  \<^verbatim>\<open>readdirSync\<close> lists it, \<^verbatim>\<open>existsSync\<close> is false and \<^verbatim>\<open>statSync\<close> throws. An
  \<open>immutable\<close> entry cannot be removed, renamed or overwritten: the call throws
  \<^verbatim>\<open>EPERM\<close> (an immutable attribute, a foreign owner in a sticky directory).
\<close>

record Stat =
  isDirectory :: bool
  st_size :: nat
  mtime :: int

record Entry = Stat +
  dangling :: bool
  immutable :: bool

type_synonym FileSystem = "(string \<times> Entry) list"

definition fsError :: "string \<Rightarrow> string \<Rightarrow> string \<Rightarrow> string" where
  "fsError code syscall p = code @ '', '' @ syscall @ '' '' @ [CHR 0x27] @ p @ [CHR 0x27]"

definition existsSync :: "string \<Rightarrow> FileSystem \<Rightarrow> bool" where
  "existsSync p fs = (case map_of fs p of None \<Rightarrow> False | Some e \<Rightarrow> \<not> dangling e)"

definition statSync :: "string \<Rightarrow> FileSystem \<Rightarrow> string + Stat" where
  "statSync p fs =
     (case map_of fs p of
        None \<Rightarrow> Inl (fsError ''ENOENT: no such file or directory'' ''stat'' p)
      | Some e \<Rightarrow>
          if dangling e then Inl (fsError ''ENOENT: no such file or directory'' ''stat'' p)
          else Inr (Stat.truncate e))"

definition unlinkSync :: "string \<Rightarrow> FileSystem \<Rightarrow> string + FileSystem" where
  "unlinkSync p fs =
     (case map_of fs p of
        None \<Rightarrow> Inl (fsError ''ENOENT: no such file or directory'' ''unlink'' p)
      | Some e \<Rightarrow>
          if immutable e then Inl (fsError ''EPERM: operation not permitted'' ''unlink'' p)
          else if isDirectory e \<and> \<not> dangling e
          then Inl (fsError ''EISDIR: illegal operation on a directory'' ''unlink'' p)
          else Inr (filter (\<lambda>x. fst x \<noteq> p) fs))"

definition path_join :: "string \<Rightarrow> string \<Rightarrow> string" where
  \<comment> \<open>\<^verbatim>\<open>path.join(dir, name)\<close> and the template \<^verbatim>\<open>`${dir}/${name}`\<close>, for a directory
      path in normal form and the name of an entry, where \<^verbatim>\<open>path.join\<close> has nothing to
      normalise\<close>
  "path_join dir name = dir @ ''/'' @ name"

definition child_name :: "string \<Rightarrow> string \<Rightarrow> string option" where
  \<comment> \<open>the name under which path \<open>p\<close> is listed in directory \<open>dir\<close>, if it lies directly in it\<close>
  "child_name dir p =
     (let pre = dir @ ''/''; name = drop (length pre) p
      in if take (length pre) p = pre \<and> name \<noteq> [] \<and> CHR ''/'' \<notin> set name
         then Some name else None)"

definition readdirSync :: "string \<Rightarrow> FileSystem \<Rightarrow> string + string list" where
  "readdirSync dir fs =
     (case map_of fs dir of
        None \<Rightarrow> Inl (fsError ''ENOENT: no such file or directory'' ''scandir'' dir)
      | Some e \<Rightarrow>
          if dangling e then Inl (fsError ''ENOENT: no such file or directory'' ''scandir'' dir)
          else if isDirectory e then Inr (List.map_filter (child_name dir) (map fst fs))
          else Inl (fsError ''ENOTDIR: not a directory'' ''scandir'' dir))"

definition renameSync :: "string \<Rightarrow> string \<Rightarrow> FileSystem \<Rightarrow> string + FileSystem" where
  \<comment> \<open>regular files and links only: moving a directory is reported as a failure\<close>
  "renameSync src dst fs =
     (case map_of fs src of
        None \<Rightarrow> Inl (fsError ''ENOENT: no such file or directory'' ''rename'' src)
      | Some e \<Rightarrow>
          if immutable e then Inl (fsError ''EPERM: operation not permitted'' ''rename'' src)
          else if isDirectory e \<and> \<not> dangling e
          then Inl (fsError ''EISDIR: illegal operation on a directory'' ''rename'' src)
          else if src = dst then Inr fs
          else (case map_of fs dst of
                  None \<Rightarrow> Inr (map (\<lambda>x. if fst x = src then (dst, snd x) else x) fs)
                | Some d \<Rightarrow>
                    if immutable d then Inl (fsError ''EPERM: operation not permitted'' ''rename'' src)
                    else if isDirectory d \<and> \<not> dangling d
                    then Inl (fsError ''EISDIR: illegal operation on a directory'' ''rename'' src)
                    else Inr (map (\<lambda>x. if fst x = src then (dst, snd x) else x)
                                (filter (\<lambda>x. fst x \<noteq> dst) fs))))"

definition writeFileSync :: "string \<Rightarrow> string \<Rightarrow> nat \<Rightarrow> int \<Rightarrow> FileSystem \<Rightarrow> string + FileSystem" where
  \<comment> \<open>writes \<open>n\<close> bytes at time \<open>now\<close> to \<open>p\<close>, which lies in directory \<open>dir\<close>\<close>
  "writeFileSync dir p n now fs =
     (case map_of fs dir of
        None \<Rightarrow> Inl (fsError ''ENOENT: no such file or directory'' ''open'' p)
      | Some ds \<Rightarrow>
          if dangling ds then Inl (fsError ''ENOENT: no such file or directory'' ''open'' p)
          else if \<not> isDirectory ds then Inl (fsError ''ENOTDIR: not a directory'' ''open'' p)
          else (case map_of fs p of
                  None \<Rightarrow>
                    Inr (fs @ [(p, \<lparr>isDirectory = False, st_size = n, mtime = now,
                                       dangling = False, immutable = False\<rparr>)])
                | Some e \<Rightarrow>
                    if immutable e then Inl (fsError ''EPERM: operation not permitted'' ''open'' p)
                    else if isDirectory e \<and> \<not> dangling e
                    then Inl (fsError ''EISDIR: illegal operation on a directory'' ''open'' p)
                    else Inr (AList.update p \<lparr>isDirectory = False, st_size = n, mtime = now,
                                                dangling = False, immutable = False\<rparr> fs)))"

definition basename :: "string \<Rightarrow> string" where
  \<comment> \<open>\<^verbatim>\<open>path.basename(p)\<close>\<close>
  "basename p =
     rev (takeWhile (\<lambda>c. c \<noteq> CHR ''/'') (dropWhile (\<lambda>c. c = CHR ''/'') (rev p)))"

section \<open>Document sessions (\<^verbatim>\<open>DocumentSessionManager\<close>)\<close>

record Settings =
  scanOutputDir :: string
  outputFormat :: string
  duplex :: bool
  scannerDeviceUrl :: string

record PageInfo =
  page_id :: string
  filename :: string
  filepath :: string
  timestamp :: int
  page_size :: nat
  pageNumber :: nat

text \<open>
  Page objects are shared by reference: \<^verbatim>\<open>reorderPages\<close> puts the object it finds
  into the new array and then writes its \<^verbatim>\<open>pageNumber\<close>. They live in a store, a list
  indexed by address, and a session holds addresses. A session object belongs to one key
  of the map and its \<^verbatim>\<open>pages\<close> array to one session, so both are values.
\<close>

record DocumentSession =
  session_id :: string
  session_name :: string
  pages :: "nat list"
  created :: int
  modified :: int

text \<open>
  \<^verbatim>\<open>generateId\<close> concatenates the clock reading and a random number, both written in
  base 36. \<open>dateNow\<close> is the value of \<^verbatim>\<open>Date.now()\<close> and \<open>randomText\<close> is the string
  \<^verbatim>\<open>Math.random().toString(36)\<close>, whose first two characters (\<^verbatim>\<open>0.\<close>) are cut off.
\<close>

definition digit36 :: "nat \<Rightarrow> char" where
  "digit36 d = ''0123456789abcdefghijklmnopqrstuvwxyz'' ! d"

fun toString36 :: "nat \<Rightarrow> string" where
  \<comment> \<open>\<^verbatim>\<open>n.toString(36)\<close> for an integer that is not negative\<close>
  "toString36 n = (if n < 36 then [digit36 n] else toString36 (n div 36) @ [digit36 (n mod 36)])"

declare toString36.simps [simp del]

definition generateId :: "int \<Rightarrow> string \<Rightarrow> string" where
  "generateId dateNow randomText = toString36 (nat dateNow) @ drop 2 randomText"

definition generatedIds :: "(nat \<Rightarrow> int) \<Rightarrow> (nat \<Rightarrow> string) \<Rightarrow> nat \<Rightarrow> string" where
  \<comment> \<open>the result of call number \<open>k\<close> of \<^verbatim>\<open>generateId\<close>, when call number \<open>k\<close> reads the
      clock value \<open>dateNow k\<close> and the random number \<open>mathRandom k\<close>\<close>
  "generatedIds dateNow mathRandom k = generateId (dateNow k) (mathRandom k)"

text \<open>
  \<^verbatim>\<open>sessions\<close> is the \<^verbatim>\<open>Map\<close> in insertion order. The methods below take the
  sequence \<open>gen\<close> of the results of the calls of \<^verbatim>\<open>generateId\<close> (\<open>gen k\<close> for call
  number \<open>k\<close>, so \<^term>\<open>generatedIds dateNow mathRandom\<close> for given readings), and
  \<open>idCalls\<close> counts the calls made so far.
\<close>

record DocumentSessionManager =
  sessions :: "(string \<times> DocumentSession) list"
  heap :: "PageInfo list"
  idCalls :: nat

definition validExtensions :: "string list" where
  "validExtensions = [''.pdf'', ''.tiff'', ''.png'', ''.jpeg'', ''.jpg'']"

definition isScanFile :: "string \<Rightarrow> bool" where
  "isScanFile file = (startsWith ''scan-'' file \<and> list_ex (\<lambda>ext. endsWith ext file) validExtensions)"

fun mapScanFiles ::
  "(nat \<Rightarrow> string) \<Rightarrow> string \<Rightarrow> string list \<Rightarrow> FileSystem \<Rightarrow> nat
     \<Rightarrow> FileSystem \<times> nat \<times> PageInfo option list option" where
  \<comment> \<open>the \<^verbatim>\<open>.map\<close> callback of \<^verbatim>\<open>loadSessions\<close> run over the file names; the last
      component is \<^const>\<open>None\<close> when \<^verbatim>\<open>statSync\<close> throws\<close>
  "mapScanFiles gen scanDir [] fs k = (fs, k, Some [])"
| "mapScanFiles gen scanDir (fname # rest) fs k =
     (let fpath = path_join scanDir fname
      in case statSync fpath fs of
           Inl e \<Rightarrow> (fs, k, None)
         | Inr stats \<Rightarrow>
             if st_size stats = 0
             then (let fs1 = (case unlinkSync fpath fs of Inl e \<Rightarrow> fs | Inr fs' \<Rightarrow> fs')
                   in case mapScanFiles gen scanDir rest fs1 k of
                        (fs2, k2, r) \<Rightarrow> (fs2, k2, map_option (Cons None) r))
             else (case mapScanFiles gen scanDir rest fs (Suc k) of
                     (fs2, k2, r) \<Rightarrow>
                       (fs2, k2,
                        map_option (Cons (Some \<lparr>page_id = gen k, filename = fname, filepath = fpath,
                                                 timestamp = mtime stats, page_size = st_size stats,
                                                 pageNumber = 0\<rparr>)) r)))"

fun numberFrom :: "nat \<Rightarrow> PageInfo list \<Rightarrow> PageInfo list" where
  \<comment> \<open>\<^verbatim>\<open>forEach((file, index) => file.pageNumber = index + 1)\<close> on fresh objects\<close>
  "numberFrom i [] = []"
| "numberFrom i (p # ps) = p\<lparr>pageNumber := i + 1\<rparr> # numberFrom (Suc i) ps"

definition loadSessions ::
  "(nat \<Rightarrow> string) \<Rightarrow> Settings \<Rightarrow> FileSystem \<times> DocumentSessionManager
     \<Rightarrow> FileSystem \<times> DocumentSessionManager" where
  "loadSessions gen settings w =
     (let fs = fst w; m = snd w; scanDir = scanOutputDir settings
      in if \<not> existsSync scanDir fs then (fs, m)
         else (case readdirSync scanDir fs of
                 Inl e \<Rightarrow> (fs, m)
               | Inr entries \<Rightarrow>
                   (case mapScanFiles gen scanDir (filter isScanFile entries) fs (idCalls m) of
                      (fs', k, None) \<Rightarrow> (fs', m\<lparr>idCalls := k\<rparr>)
                    | (fs', k, Some scanFiles) \<Rightarrow>
                        (let filteredScanFiles = sort_key timestamp (List.map_filter (\<lambda>f. f) scanFiles)
                         in if length filteredScanFiles > 0
                            then (let numbered = numberFrom 0 filteredScanFiles;
                                      defaultSession =
                                        \<lparr>session_id = ''default'', session_name = ''Current Document'',
                                         pages = [length (heap m) ..< length (heap m) + length numbered],
                                         created = timestamp (hd filteredScanFiles),
                                         modified = timestamp (last filteredScanFiles)\<rparr>
                                  in (fs', m\<lparr>sessions := AList.update ''default'' defaultSession (sessions m),
                                            heap := heap m @ numbered, idCalls := k\<rparr>))
                            else (fs', m\<lparr>idCalls := k\<rparr>)))))"

definition getSessions ::
  "(nat \<Rightarrow> string) \<Rightarrow> Settings \<Rightarrow> FileSystem \<times> DocumentSessionManager
     \<Rightarrow> (FileSystem \<times> DocumentSessionManager) \<times> DocumentSession list" where
  "getSessions gen settings w =
     (let w' = loadSessions gen settings w in (w', map snd (sessions (snd w'))))"

definition getSession ::
  "(nat \<Rightarrow> string) \<Rightarrow> Settings \<Rightarrow> string \<Rightarrow> FileSystem \<times> DocumentSessionManager
     \<Rightarrow> (FileSystem \<times> DocumentSessionManager) \<times> DocumentSession option" where
  "getSession gen settings sessionId w =
     (let w' = loadSessions gen settings w in (w', map_of (sessions (snd w')) sessionId))"

definition pageList :: "DocumentSessionManager \<Rightarrow> DocumentSession \<Rightarrow> PageInfo list" where
  \<comment> \<open>the page objects a caller reads through \<^verbatim>\<open>session.pages\<close>\<close>
  "pageList m s = map (\<lambda>r. heap m ! r) (pages s)"

fun findIndex :: "('a \<Rightarrow> bool) \<Rightarrow> 'a list \<Rightarrow> nat option" where
  \<comment> \<open>\<^verbatim>\<open>xs.findIndex(P)\<close>, with \<^const>\<open>None\<close> for \<^verbatim>\<open>-1\<close>\<close>
  "findIndex P [] = None"
| "findIndex P (x # xs) = (if P x then Some 0 else map_option Suc (findIndex P xs))"

fun renumberRefs :: "nat \<Rightarrow> nat list \<Rightarrow> PageInfo list \<Rightarrow> PageInfo list" where
  \<comment> \<open>\<^verbatim>\<open>forEach((p, index) => p.pageNumber = index + 1)\<close> over an array of references:
      each write goes to the object in the store\<close>
  "renumberRefs i [] h = h"
| "renumberRefs i (r # rs) h = renumberRefs (Suc i) rs (h[r := (h ! r)\<lparr>pageNumber := i + 1\<rparr>])"

definition newSession :: "string \<Rightarrow> int \<Rightarrow> DocumentSession" where
  \<comment> \<open>the session \<^verbatim>\<open>addPageToSession\<close> makes when \<^verbatim>\<open>getSession\<close> returns \<^verbatim>\<open>null\<close>\<close>
  "newSession sessionId now =
     \<lparr>session_id = sessionId,
      session_name = (if sessionId = ''default'' then ''Current Document'' else ''Document '' @ sessionId),
      pages = [], created = now, modified = now\<rparr>"

definition addPageToSession ::
  "(nat \<Rightarrow> string) \<Rightarrow> Settings \<Rightarrow> string \<Rightarrow> string \<Rightarrow> int \<Rightarrow> FileSystem \<times> DocumentSessionManager
     \<Rightarrow> (FileSystem \<times> DocumentSessionManager) \<times> (string + unit)" where
  \<comment> \<open>the result is \<^verbatim>\<open>{success: false, error}\<close> on the left, \<^verbatim>\<open>{success: true}\<close> on the right\<close>
  "addPageToSession gen settings sessionId pageFilepath now w =
     (case getSession gen settings sessionId w of
        ((fs, m), found) \<Rightarrow>
          (let session = (case found of None \<Rightarrow> newSession sessionId now | Some s \<Rightarrow> s)
           in if \<not> existsSync pageFilepath fs then ((fs, m), Inl ''Page file not found'')
              else (case statSync pageFilepath fs of
                      Inl e \<Rightarrow> ((fs, m), Inl e)
                    | Inr stats \<Rightarrow>
                        if st_size stats = 0
                        then (((case unlinkSync pageFilepath fs of Inl e \<Rightarrow> fs | Inr fs' \<Rightarrow> fs'), m),
                              Inl ''Page file is empty'')
                        else (let pageInfo =
                                    \<lparr>page_id = gen (idCalls m), filename = basename pageFilepath,
                                     filepath = pageFilepath, timestamp = mtime stats,
                                     page_size = st_size stats,
                                     pageNumber = length (pages session) + 1\<rparr>;
                                  session' = session\<lparr>pages := pages session @ [length (heap m)],
                                                     modified := now\<rparr>
                              in ((fs, m\<lparr>sessions := AList.update sessionId session' (sessions m),
                                         heap := heap m @ [pageInfo],
                                         idCalls := Suc (idCalls m)\<rparr>),
                                  Inr ())))))"

definition removePageFromSession ::
  "(nat \<Rightarrow> string) \<Rightarrow> Settings \<Rightarrow> string \<Rightarrow> string \<Rightarrow> int \<Rightarrow> FileSystem \<times> DocumentSessionManager
     \<Rightarrow> (FileSystem \<times> DocumentSessionManager) \<times> (string + unit)" where
  "removePageFromSession gen settings sessionId pageIdOrPath now w =
     (case getSession gen settings sessionId w of
        ((fs, m), None) \<Rightarrow> ((fs, m), Inl ''Session not found'')
      | ((fs, m), Some session) \<Rightarrow>
          (let byId = findIndex (\<lambda>r. page_id (heap m ! r) = pageIdOrPath) (pages session);
               pageIndex = (case byId of
                              Some i \<Rightarrow> Some i
                            | None \<Rightarrow> findIndex (\<lambda>r. filepath (heap m ! r) = pageIdOrPath) (pages session))
           in case pageIndex of
                None \<Rightarrow> ((fs, m), Inl ''Page not found'')
              | Some i \<Rightarrow>
                  (let page = heap m ! (pages session ! i)
                   in case (if existsSync (filepath page) fs then unlinkSync (filepath page) fs else Inr fs) of
                        Inl e \<Rightarrow> ((fs, m), Inl e)
                      | Inr fs' \<Rightarrow>
                          (let remaining = take i (pages session) @ drop (Suc i) (pages session);
                               session' = session\<lparr>pages := remaining, modified := now\<rparr>
                           in ((fs', m\<lparr>sessions := AList.update sessionId session' (sessions m),
                                       heap := renumberRefs 0 remaining (heap m)\<rparr>),
                               Inr ())))))"

fun collectPages :: "PageInfo list \<Rightarrow> nat list \<Rightarrow> string list \<Rightarrow> string + nat list" where
  \<comment> \<open>the validation loop of \<^verbatim>\<open>reorderPages\<close>: the references found, or the first id that
      names no page\<close>
  "collectPages h ps [] = Inr []"
| "collectPages h ps (pageId # rest) =
     (case List.find (\<lambda>r. page_id (h ! r) = pageId) ps of
        None \<Rightarrow> Inl pageId
      | Some r \<Rightarrow> (case collectPages h ps rest of Inl e \<Rightarrow> Inl e | Inr rs \<Rightarrow> Inr (r # rs)))"

definition reorderPages ::
  "(nat \<Rightarrow> string) \<Rightarrow> Settings \<Rightarrow> string \<Rightarrow> string list \<Rightarrow> int \<Rightarrow> FileSystem \<times> DocumentSessionManager
     \<Rightarrow> (FileSystem \<times> DocumentSessionManager) \<times> (string + unit)" where
  "reorderPages gen settings sessionId pageIds now w =
     (case getSession gen settings sessionId w of
        ((fs, m), None) \<Rightarrow> ((fs, m), Inl ''Session not found'')
      | ((fs, m), Some session) \<Rightarrow>
          (case collectPages (heap m) (pages session) pageIds of
             Inl pageId \<Rightarrow> ((fs, m), Inl (''Page '' @ pageId @ '' not found''))
           | Inr reorderedPages \<Rightarrow>
               (let session' = session\<lparr>pages := reorderedPages, modified := now\<rparr>
                in ((fs, m\<lparr>sessions := AList.update sessionId session' (sessions m),
                           heap := renumberRefs 0 reorderedPages (heap m)\<rparr>),
                    Inr ()))))"

subsection \<open>Combining the pages of a session\<close>

text \<open>
  \<^verbatim>\<open>pdf-lib\<close> and \<^verbatim>\<open>img2pdf\<close> are not part of the program. \<open>pdfLoad\<close> gives, for the
  file at a path, the number of pages \<^verbatim>\<open>PDFDocument.load\<close> finds in it or the message
  it throws; the accumulated document is the list of (source path, page index) pairs
  added so far; \<open>pdfSave\<close> gives the number of bytes \<^verbatim>\<open>save()\<close> returns for it or the
  message it throws. \<open>merge\<close> is the run of the \<^verbatim>\<open>img2pdf\<close> command line: the message
  of the rejection, if any, and the file system it leaves.
\<close>

type_synonym pdf_document = "(string \<times> nat) list"

definition dashStamp :: "string \<Rightarrow> string" where
  \<comment> \<open>\<^verbatim>\<open>iso.replace(/[:.]/g, "-")\<close>\<close>
  "dashStamp isoTime = map (\<lambda>c. if c = CHR '':'' \<or> c = CHR ''.'' then CHR ''-'' else c) isoTime"

definition toUpperChar :: "char \<Rightarrow> char" where
  "toUpperChar c =
     (let n = (of_char c :: nat)
      in if (97 \<le> n \<and> n \<le> 122) \<or> (224 \<le> n \<and> n \<le> 254 \<and> n \<noteq> 247) then char_of (n - 32) else c)"

definition toUpperCase :: "string \<Rightarrow> string" where
  "toUpperCase s = map toUpperChar s"

fun appendPdfPages ::
  "(string \<Rightarrow> string + nat) \<Rightarrow> FileSystem \<Rightarrow> PageInfo list \<Rightarrow> pdf_document \<Rightarrow> string + pdf_document" where
  \<comment> \<open>the \<^verbatim>\<open>for (const page of session.pages)\<close> loop of \<^verbatim>\<open>combinePdfPages\<close>\<close>
  "appendPdfPages pdfLoad fs [] doc = Inr doc"
| "appendPdfPages pdfLoad fs (page # rest) doc =
     (if \<not> existsSync (filepath page) fs then appendPdfPages pdfLoad fs rest doc
      else (case statSync (filepath page) fs of
              Inl e \<Rightarrow> Inl e
            | Inr stats \<Rightarrow>
                if isDirectory stats
                then Inl ''EISDIR: illegal operation on a directory, read''
                else (case pdfLoad (filepath page) of
                        Inl e \<Rightarrow> Inl e
                      | Inr n \<Rightarrow>
                          appendPdfPages pdfLoad fs rest
                            (doc @ map (\<lambda>i. (filepath page, i)) [0..<n]))))"

definition combinePdfPages ::
  "(string \<Rightarrow> string + nat) \<Rightarrow> (pdf_document \<Rightarrow> string + nat) \<Rightarrow> PageInfo list \<Rightarrow> string \<Rightarrow> string
     \<Rightarrow> string \<Rightarrow> int \<Rightarrow> FileSystem \<Rightarrow> FileSystem \<times> (string + string)" where
  \<comment> \<open>\<open>sessionPages\<close> are the page objects of the session, \<open>isoTime\<close> is \<^verbatim>\<open>new Date().toISOString()\<close>;
      the result is the message of the error thrown, or the output path\<close>
  "combinePdfPages pdfLoad pdfSave sessionPages outputDir sessionId isoTime now fs =
     (case appendPdfPages pdfLoad fs sessionPages [] of
        Inl e \<Rightarrow> (fs, Inl (''Failed to combine PDF pages: '' @ e))
      | Inr combinedPdf \<Rightarrow>
          (let outputPath = path_join outputDir (''combined-'' @ sessionId @ ''-'' @ dashStamp isoTime @ ''.pdf'')
           in case pdfSave combinedPdf of
                Inl e \<Rightarrow> (fs, Inl (''Failed to combine PDF pages: '' @ e))
              | Inr n \<Rightarrow>
                  (case writeFileSync outputDir outputPath n now fs of
                     Inl e \<Rightarrow> (fs, Inl (''Failed to combine PDF pages: '' @ e))
                   | Inr fs' \<Rightarrow> (fs', Inr outputPath))))"

definition quoted :: "string \<Rightarrow> string" where
  "quoted s = [CHR 0x22] @ s @ [CHR 0x22]"

definition combineTiffPages ::
  "(string \<Rightarrow> FileSystem \<Rightarrow> string option \<times> FileSystem) \<Rightarrow> PageInfo list \<Rightarrow> string \<Rightarrow> string
     \<Rightarrow> string \<Rightarrow> FileSystem \<Rightarrow> FileSystem \<times> (string + string)" where
  "combineTiffPages merge sessionPages outputDir sessionId isoTime fs =
     (let inputFiles = map (\<lambda>page. quoted (filepath page))
                         (filter (\<lambda>page. existsSync (filepath page) fs) sessionPages)
      in if length inputFiles = 0
         then (fs, Inl (''Failed to combine TIFF pages into PDF: '' @ ''No valid TIFF files to combine''))
         else (let prefix = (if length inputFiles > 1 then ''combined-'' @ sessionId else sessionId);
                   outputPath = path_join outputDir (prefix @ ''-'' @ dashStamp isoTime @ ''.pdf'');
                   cmd = ''img2pdf '' @ join '' '' inputFiles @ '' -o '' @ quoted outputPath
               in case merge cmd fs of
                    (Some e, fs') \<Rightarrow> (fs', Inl (''Failed to combine TIFF pages into PDF: '' @ e))
                  | (None, fs') \<Rightarrow> (fs', Inr outputPath)))"

definition combineSessionPages ::
  "(nat \<Rightarrow> string) \<Rightarrow> Settings \<Rightarrow> (string \<Rightarrow> string + nat) \<Rightarrow> (pdf_document \<Rightarrow> string + nat)
     \<Rightarrow> (string \<Rightarrow> FileSystem \<Rightarrow> string option \<times> FileSystem) \<Rightarrow> string \<Rightarrow> string \<Rightarrow> int
     \<Rightarrow> FileSystem \<times> DocumentSessionManager
     \<Rightarrow> (FileSystem \<times> DocumentSessionManager) \<times> (string + string)" where
  "combineSessionPages gen settings pdfLoad pdfSave merge sessionId isoTime now w =
     (case getSession gen settings sessionId w of
        ((fs, m), None) \<Rightarrow> ((fs, m), Inl ''No pages to combine'')
      | ((fs, m), Some session) \<Rightarrow>
          if length (pages session) = 0 then ((fs, m), Inl ''No pages to combine'')
          else (let format = (if outputFormat settings = [] then ''pdf'' else outputFormat settings)
                in if format = ''tiff''
                   then (case combineTiffPages merge (pageList m session) (scanOutputDir settings)
                                sessionId isoTime fs of
                           (fs', r) \<Rightarrow> ((fs', m), r))
                   else if format = ''pdf''
                   then (case combinePdfPages pdfLoad pdfSave (pageList m session)
                                (scanOutputDir settings) sessionId isoTime now fs of
                           (fs', r) \<Rightarrow> ((fs', m), r))
                   else ((fs, m), Inl (''Combining is not supported for '' @ toUpperCase format
                                        @ '' format''))))"

section \<open>Scan executor (\<^verbatim>\<open>scanPage\<close>)\<close>

text \<open>
  What lies outside the program is given by an environment: the outcome of each run of
  \<^verbatim>\<open>scanimage -L\<close>, what each run of the capture command does to the file system and
  whether it is rejected (with which message), the clock, and the regular expression
  engine. The text of the capture command is not modelled; the command is the same for
  the first run and for the retry. The state counts the runs of each command and the
  calls of \<^verbatim>\<open>attemptFix\<close>.
\<close>

record ScanEnv =
  listing :: "nat \<Rightarrow> exec_result"
  capture :: "nat \<Rightarrow> FileSystem \<Rightarrow> string option \<times> FileSystem"
  clock :: "nat \<Rightarrow> int"
  toISOString :: "int \<Rightarrow> string"
  regex :: device_regex

record ScanWorld =
  fsys :: FileSystem
  scannerManager :: ScannerManager
  listings :: nat
  captures :: nat
  fixCalls :: nat
  ticks :: nat

definition readClock :: "ScanEnv \<Rightarrow> ScanWorld \<Rightarrow> int \<times> ScanWorld" where
  "readClock env w = (clock env (ticks w), w\<lparr>ticks := Suc (ticks w)\<rparr>)"

definition runDetect :: "ScanEnv \<Rightarrow> ScanWorld \<Rightarrow> (ScannerInfo list \<times> string option) \<times> ScanWorld" where
  \<comment> \<open>\<^verbatim>\<open>scannerManager.detectScanners()\<close>\<close>
  "runDetect env w =
     (case readClock env w of
        (now, w1) \<Rightarrow>
          (case detectScanners (regex env) (listing env (listings w1)) now (scannerManager w1) of
             (sm, res) \<Rightarrow> (res, w1\<lparr>scannerManager := sm, listings := Suc (listings w1)\<rparr>)))"

definition runAttemptFix :: "ScanEnv \<Rightarrow> ScanWorld \<Rightarrow> (bool \<times> string) \<times> ScanWorld" where
  \<comment> \<open>\<^verbatim>\<open>scannerManager.attemptFix()\<close>\<close>
  "runAttemptFix env w =
     (case readClock env w of
        (now, w1) \<Rightarrow>
          (case attemptFix (regex env) (listing env (listings w1)) now (scannerManager w1) of
             (sm, res) \<Rightarrow>
               (res, w1\<lparr>scannerManager := sm, listings := Suc (listings w1), fixCalls := Suc (fixCalls w1)\<rparr>)))"

definition markIfDetected :: "ScanEnv \<Rightarrow> ScannerInfo option \<Rightarrow> ScanWorld \<Rightarrow> ScanWorld" where
  \<comment> \<open>\<^verbatim>\<open>if (scanner) scannerManager.markSuccessfulScan(scanner)\<close>\<close>
  "markIfDetected env scanner w =
     (case scanner of
        None \<Rightarrow> w
      | Some s \<Rightarrow>
          (case readClock env w of
             (now, w1) \<Rightarrow> w1\<lparr>scannerManager := markSuccessfulScan s now (scannerManager w1)\<rparr>))"

definition resolveDevice ::
  "ScanEnv \<Rightarrow> Settings \<Rightarrow> ScanWorld \<Rightarrow> ScanWorld \<times> (string + ScannerInfo option \<times> string)" where
  \<comment> \<open>the first part of \<^verbatim>\<open>scanPage\<close>: the error thrown, or \<^verbatim>\<open>scanner\<close> and
      \<^verbatim>\<open>scannerDevice\<close>\<close>
  "resolveDevice env settings w =
     (if scannerDeviceUrl settings \<noteq> [] \<and> trim (scannerDeviceUrl settings) \<noteq> []
      then (w, Inr (None, trim (scannerDeviceUrl settings)))
      else (case runDetect env w of
              ((scanners, err), w1) \<Rightarrow>
                (case scanners of
                   [] \<Rightarrow>
                     (w1, Inl (''Scanner not available: ''
                               @ (case err of
                                    None \<Rightarrow> ''No scanners found''
                                  | Some e \<Rightarrow> if e = [] then ''No scanners found'' else e)))
                 | s # rest \<Rightarrow> (w1, Inr (Some s, device s)))))"

subsection \<open>Duplex batch capture\<close>

definition hexDigit :: "char \<Rightarrow> nat option" where
  "hexDigit c =
     (let n = (of_char c :: nat)
      in if 48 \<le> n \<and> n \<le> 57 then Some (n - 48)
         else if 97 \<le> n \<and> n \<le> 102 then Some (n - 87)
         else if 65 \<le> n \<and> n \<le> 70 then Some (n - 55)
         else None)"

definition decDigit :: "char \<Rightarrow> nat option" where
  "decDigit c = (let n = (of_char c :: nat) in if 48 \<le> n \<and> n \<le> 57 then Some (n - 48) else None)"

fun digitsValue :: "(char \<Rightarrow> nat option) \<Rightarrow> nat \<Rightarrow> nat option \<Rightarrow> string \<Rightarrow> nat option" where
  \<comment> \<open>the value of the longest prefix of digits in the given base; \<^const>\<open>None\<close> when
      there is no digit\<close>
  "digitsValue dig base acc [] = acc"
| "digitsValue dig base acc (c # cs) =
     (case dig c of
        None \<Rightarrow> acc
      | Some d \<Rightarrow> digitsValue dig base (Some ((case acc of None \<Rightarrow> 0 | Some a \<Rightarrow> a) * base + d)) cs)"

text \<open>
  A JavaScript number is a double. The numbers met here are the results of \<^verbatim>\<open>parseInt\<close>
  and their differences: integers rounded to 53 significant bits (to nearest, ties to
  even), the two infinities where the rounded value reaches \<open>2 ^ 1024\<close>, and \<^verbatim>\<open>NaN\<close>.
\<close>

datatype number = NaN | Finite int | PosInfinity | NegInfinity

fun bitLength :: "nat \<Rightarrow> nat" where
  \<comment> \<open>the number of binary digits\<close>
  "bitLength n = (if n = 0 then 0 else Suc (bitLength (n div 2)))"

declare bitLength.simps [simp del]

definition roundToDouble :: "nat \<Rightarrow> nat" where
  \<comment> \<open>the nearest integer with at most 53 significant bits\<close>
  "roundToDouble a =
     (if a < 2 ^ 53 then a
      else (let e = bitLength a - 53; q = a div 2 ^ e; r = a mod 2 ^ e; half = 2 ^ (e - 1)
            in (if half < r \<or> (r = half \<and> odd q) then q + 1 else q) * 2 ^ e))"

definition toNumber :: "int \<Rightarrow> number" where
  \<comment> \<open>the number value of a mathematical integer\<close>
  "toNumber x =
     (let a = roundToDouble (nat \<bar>x\<bar>)
      in if 2 ^ 1024 \<le> a then (if x < 0 then NegInfinity else PosInfinity)
         else Finite (if x < 0 then - int a else int a))"

definition numberMinus :: "number \<Rightarrow> number \<Rightarrow> number" where
  \<comment> \<open>\<^verbatim>\<open>a - b\<close>\<close>
  "numberMinus a b =
     (case a of
        NaN \<Rightarrow> NaN
      | Finite x \<Rightarrow>
          (case b of NaN \<Rightarrow> NaN | Finite y \<Rightarrow> toNumber (x - y)
                   | PosInfinity \<Rightarrow> NegInfinity | NegInfinity \<Rightarrow> PosInfinity)
      | PosInfinity \<Rightarrow> (case b of NaN \<Rightarrow> NaN | PosInfinity \<Rightarrow> NaN | _ \<Rightarrow> PosInfinity)
      | NegInfinity \<Rightarrow> (case b of NaN \<Rightarrow> NaN | NegInfinity \<Rightarrow> NaN | _ \<Rightarrow> NegInfinity))"

definition parseMathInt :: "string \<Rightarrow> int option" where
  \<comment> \<open>the mathematical integer that \<^verbatim>\<open>parseInt(s)\<close>, called with no radix, reads from
      \<open>s\<close>; \<^const>\<open>None\<close> when there is no digit\<close>
  "parseMathInt s =
     (let t = dropWhile isWhiteSpace s;
          neg = (t \<noteq> [] \<and> hd t = CHR ''-'');
          u = (if t \<noteq> [] \<and> (hd t = CHR ''-'' \<or> hd t = CHR ''+'') then tl t else t);
          v = (if startsWith ''0x'' u \<or> startsWith ''0X'' u
               then digitsValue hexDigit 16 None (drop 2 u)
               else digitsValue decDigit 10 None u)
      in case v of None \<Rightarrow> None | Some n \<Rightarrow> Some (if neg then - int n else int n))"

definition parseInt :: "string \<Rightarrow> number" where
  \<comment> \<open>\<^verbatim>\<open>parseInt(s)\<close>: the number value of the integer read, \<^verbatim>\<open>NaN\<close> when there is none\<close>
  "parseInt s = (case parseMathInt s of None \<Rightarrow> NaN | Some i \<Rightarrow> toNumber i)"

fun lastIndexOf :: "char \<Rightarrow> string \<Rightarrow> int" where
  \<comment> \<open>\<^verbatim>\<open>s.lastIndexOf(c)\<close>\<close>
  "lastIndexOf c [] = - 1"
| "lastIndexOf c (x # xs) =
     (let i = lastIndexOf c xs in if i \<ge> 0 then i + 1 else if x = c then 0 else - 1)"

definition slice :: "nat \<Rightarrow> int \<Rightarrow> string \<Rightarrow> string" where
  \<comment> \<open>\<^verbatim>\<open>s.slice(start, end)\<close> for a start that is not negative\<close>
  "slice start e s =
     (let len = int (length s);
          from = min (int start) len;
          to = (if e < 0 then max (len + e) 0 else min e len)
      in if to > from then take (nat (to - from)) (drop (nat from) s) else [])"

definition batchIndex :: "string \<Rightarrow> string \<Rightarrow> number" where
  \<comment> \<open>\<^verbatim>\<open>parseInt(a.slice(batchPrefix.length, a.lastIndexOf('.')))\<close>\<close>
  "batchIndex batchPrefix a = parseInt (slice (length batchPrefix) (lastIndexOf (CHR ''.'') a) a)"

definition compareValue :: "number \<Rightarrow> int" where
  \<comment> \<open>what \<^verbatim>\<open>sort\<close> makes of the comparator's result: \<^verbatim>\<open>NaN\<close> counts as \<^verbatim>\<open>0\<close>, and of
      the other results only the sign is used\<close>
  "compareValue v = (case v of NaN \<Rightarrow> 0 | Finite i \<Rightarrow> i | PosInfinity \<Rightarrow> 1 | NegInfinity \<Rightarrow> - 1)"

definition batchCompare :: "string \<Rightarrow> string \<Rightarrow> string \<Rightarrow> int" where
  \<comment> \<open>the comparator \<^verbatim>\<open>numA - numB\<close>, as \<^verbatim>\<open>sort\<close> reads it\<close>
  "batchCompare batchPrefix a b =
     compareValue (numberMinus (batchIndex batchPrefix a) (batchIndex batchPrefix b))"

text \<open>
  \<^verbatim>\<open>Array.prototype.sort\<close> is stable. Where the comparator orders the elements
  consistently, every stable sort gives the same array; the insertion sort below is one.
  Where it does not (an index that does not parse compares equal to everything), the
  engine's choice is not fixed by the language and the model gives what this sort gives.
\<close>

fun insertBy :: "('a \<Rightarrow> 'a \<Rightarrow> int) \<Rightarrow> 'a \<Rightarrow> 'a list \<Rightarrow> 'a list" where
  "insertBy cmp x [] = [x]"
| "insertBy cmp x (y # ys) = (if cmp x y \<le> 0 then x # y # ys else y # insertBy cmp x ys)"

definition sortBy :: "('a \<Rightarrow> 'a \<Rightarrow> int) \<Rightarrow> 'a list \<Rightarrow> 'a list" where
  "sortBy cmp xs = foldr (insertBy cmp) xs []"

definition isBatchFile :: "string \<Rightarrow> string \<Rightarrow> string \<Rightarrow> bool" where
  "isBatchFile batchPrefix ext f = (startsWith batchPrefix f \<and> endsWith (''.'' @ ext) f)"

fun collectLoop :: "string \<Rightarrow> string list \<Rightarrow> FileSystem \<Rightarrow> FileSystem \<times> (string + string list)" where
  \<comment> \<open>the \<^verbatim>\<open>for (const filename of matchingFiles)\<close> loop: the paths pushed to
      \<^verbatim>\<open>scannedFiles\<close>, or the message of the error a file system call throws\<close>
  "collectLoop dir [] fs = (fs, Inr [])"
| "collectLoop dir (fname # rest) fs =
     (let filePath = path_join dir fname
      in case statSync filePath fs of
           Inl e \<Rightarrow> (fs, Inl e)
         | Inr stats \<Rightarrow>
             if st_size stats > 0
             then (case collectLoop dir rest fs of
                     (fs', Inl e) \<Rightarrow> (fs', Inl e)
                   | (fs', Inr files) \<Rightarrow> (fs', Inr (filePath # files)))
             else (case unlinkSync filePath fs of
                     Inl e \<Rightarrow> (fs, Inl e)
                   | Inr fs1 \<Rightarrow> collectLoop dir rest fs1))"

definition collectBatch :: "string \<Rightarrow> string \<Rightarrow> string \<Rightarrow> FileSystem \<Rightarrow> FileSystem \<times> (string + string list)" where
  \<comment> \<open>the collection step that follows the capture command in the duplex branch\<close>
  "collectBatch dir batchPrefix ext fs =
     (case readdirSync dir fs of
        Inl e \<Rightarrow> (fs, Inl e)
      | Inr dirEntries \<Rightarrow>
          (let matchingFiles = sortBy (batchCompare batchPrefix)
                                 (filter (isBatchFile batchPrefix ext) dirEntries)
           in case collectLoop dir matchingFiles fs of
                (fs', Inl e) \<Rightarrow> (fs', Inl e)
              | (fs', Inr scannedFiles) \<Rightarrow>
                  if length scannedFiles = 0
                  then (fs', Inl ''Duplex scan failed - no files were created'')
                  else (fs', Inr scannedFiles)))"

fun unlinkAll :: "string \<Rightarrow> string list \<Rightarrow> FileSystem \<Rightarrow> FileSystem" where
  \<comment> \<open>the clean-up loop; the first \<^verbatim>\<open>unlinkSync\<close> that throws ends it, and the
      empty \<^verbatim>\<open>catch\<close> swallows the error\<close>
  "unlinkAll dir [] fs = fs"
| "unlinkAll dir (f # rest) fs =
     (case unlinkSync (path_join dir f) fs of Inl e \<Rightarrow> fs | Inr fs' \<Rightarrow> unlinkAll dir rest fs')"

definition cleanupBatch :: "string \<Rightarrow> string \<Rightarrow> string \<Rightarrow> FileSystem \<Rightarrow> FileSystem" where
  "cleanupBatch dir batchPrefix ext fs =
     (case readdirSync dir fs of
        Inl e \<Rightarrow> fs
      | Inr dirEntries \<Rightarrow> unlinkAll dir (filter (isBatchFile batchPrefix ext) dirEntries) fs)"

definition duplexScan ::
  "ScanEnv \<Rightarrow> string \<Rightarrow> string \<Rightarrow> string \<Rightarrow> ScannerInfo option \<Rightarrow> ScanWorld
     \<Rightarrow> ScanWorld \<times> (string + string list)" where
  \<comment> \<open>the \<^verbatim>\<open>if (isDuplex)\<close> branch: the message of the error thrown, or the paths returned\<close>
  "duplexScan env dir batchPrefix ext scanner w =
     (case capture env (captures w) (fsys w) of
        (outcome, fs1) \<Rightarrow>
          (let w1 = w\<lparr>fsys := fs1, captures := Suc (captures w)\<rparr>
           in case (case outcome of
                      Some e \<Rightarrow> (fs1, Inl e)
                    | None \<Rightarrow> collectBatch dir batchPrefix ext fs1) of
                (fs2, Inr scannedFiles) \<Rightarrow> (markIfDetected env scanner (w1\<lparr>fsys := fs2\<rparr>), Inr scannedFiles)
              | (fs2, Inl errorMsg) \<Rightarrow>
                  (w1\<lparr>fsys := cleanupBatch dir batchPrefix ext fs2\<rparr>,
                   Inl (''Duplex scan failed: '' @ errorMsg))))"

subsection \<open>Single-sided capture\<close>

definition captureOnce ::
  "ScanEnv \<Rightarrow> string \<Rightarrow> string \<Rightarrow> ScannerInfo option \<Rightarrow> ScanWorld
     \<Rightarrow> ScanWorld \<times> (string + string list)" where
  \<comment> \<open>the body of the \<^verbatim>\<open>try\<close> block, which the source writes out a second time for the
      retry: run the command, check the temporary file, rename it\<close>
  "captureOnce env tempFilePath finalFilePath scanner w =
     (case capture env (captures w) (fsys w) of
        (outcome, fs1) \<Rightarrow>
          (let w1 = w\<lparr>fsys := fs1, captures := Suc (captures w)\<rparr>
           in case outcome of
                Some e \<Rightarrow> (w1, Inl e)
              | None \<Rightarrow>
                  if \<not> existsSync tempFilePath fs1 then (w1, Inl ''Scan failed - no file was created'')
                  else (case statSync tempFilePath fs1 of
                          Inl e \<Rightarrow> (w1, Inl e)
                        | Inr stats \<Rightarrow>
                            if st_size stats = 0
                            then (case unlinkSync tempFilePath fs1 of
                                    Inl e \<Rightarrow> (w1, Inl e)
                                  | Inr fs2 \<Rightarrow> (w1\<lparr>fsys := fs2\<rparr>, Inl ''Scan failed - empty file created''))
                            else (case renameSync tempFilePath finalFilePath fs1 of
                                    Inl e \<Rightarrow> (w1, Inl e)
                                  | Inr fs2 \<Rightarrow>
                                      (markIfDetected env scanner (w1\<lparr>fsys := fs2\<rparr>),
                                       Inr [finalFilePath])))))"

definition cleanupTemp :: "string \<Rightarrow> FileSystem \<Rightarrow> FileSystem" where
  \<comment> \<open>the guarded clean-up: a zero-byte file at the temporary path is removed, and an
      error of the removal is logged, not thrown\<close>
  "cleanupTemp tempFilePath fs =
     (if existsSync tempFilePath fs
      then (case statSync tempFilePath fs of
              Inl e \<Rightarrow> fs
            | Inr s \<Rightarrow>
                if st_size s = 0
                then (case unlinkSync tempFilePath fs of Inl e \<Rightarrow> fs | Inr fs' \<Rightarrow> fs')
                else fs)
      else fs)"

definition singleScan ::
  "ScanEnv \<Rightarrow> string \<Rightarrow> string \<Rightarrow> ScannerInfo option \<Rightarrow> ScanWorld
     \<Rightarrow> ScanWorld \<times> (string + string list)" where
  "singleScan env tempFilePath finalFilePath scanner w =
     (case captureOnce env tempFilePath finalFilePath scanner w of
        (w1, Inr files) \<Rightarrow> (w1, Inr files)
      | (w1, Inl errorMsg) \<Rightarrow>
          (let w2 = w1\<lparr>fsys := cleanupTemp tempFilePath (fsys w1)\<rparr>
           in if str_includes errorMsg ''no SANE devices found''
              then (case runAttemptFix env w2 of
                      ((success, message), w3) \<Rightarrow>
                        if success
                        then (case captureOnce env tempFilePath finalFilePath scanner w3 of
                                (w4, Inr files) \<Rightarrow> (w4, Inr files)
                              | (w4, Inl retryErr) \<Rightarrow>
                                  (w4\<lparr>fsys := cleanupTemp tempFilePath (fsys w4)\<rparr>,
                                   Inl (''Scan failed after fix attempt: Error: '' @ retryErr)))
                        else (w3, Inl (''Scanner not available: '' @ message)))
              else (w2\<lparr>fsys := cleanupTemp tempFilePath (fsys w2)\<rparr>,
                    Inl (''Scan failed: '' @ errorMsg))))"

definition scanPage :: "ScanEnv \<Rightarrow> Settings \<Rightarrow> ScanWorld \<Rightarrow> ScanWorld \<times> (string + string list)" where
  "scanPage env settings w =
     (case resolveDevice env settings w of
        (w1, Inl e) \<Rightarrow> (w1, Inl e)
      | (w1, Inr (scanner, scannerDevice)) \<Rightarrow>
          (case readClock env w1 of
             (now, w2) \<Rightarrow>
               (let stamp = dashStamp (toISOString env now);
                    ext = (if outputFormat settings = [] then ''pdf'' else outputFormat settings)
                in if duplex settings
                   then duplexScan env (scanOutputDir settings) (''scan-'' @ stamp @ ''-p'') ext scanner w2
                   else (let finalFilePath = scanOutputDir settings @ ''/scan-'' @ stamp @ ''.'' @ ext;
                             tempFilePath = finalFilePath @ ''.tmp''
                         in singleScan env tempFilePath finalFilePath scanner w2))))"

section \<open>Vocabulary of the properties\<close>


definition pageNumbers :: "DocumentSessionManager \<Rightarrow> string \<Rightarrow> nat list option" where
  "pageNumbers m sessionId =
     map_option (\<lambda>s. map pageNumber (pageList m s)) (map_of (sessions m) sessionId)"

definition sessionPageIds :: "DocumentSessionManager \<Rightarrow> string \<Rightarrow> string list option" where
  "sessionPageIds m sessionId =
     map_option (\<lambda>s. map page_id (pageList m s)) (map_of (sessions m) sessionId)"

definition storedPages :: "DocumentSessionManager \<Rightarrow> DocumentSession \<Rightarrow> bool" where
  \<comment> \<open>the entries of \<^verbatim>\<open>session.pages\<close> are objects of the store\<close>
  "storedPages m s = list_all (\<lambda>r. r < length (heap m)) (pages s)"

definition noEmptyTemp :: "string \<Rightarrow> FileSystem \<Rightarrow> bool" where
  \<comment> \<open>no zero-byte file that \<^verbatim>\<open>unlinkSync\<close> could remove lies at path \<open>t\<close>\<close>
  "noEmptyTemp t fs =
     (case map_of fs t of
        None \<Rightarrow> True
      | Some e \<Rightarrow> isDirectory e \<or> 0 < st_size e \<or> dangling e \<or> immutable e)"

definition scanSucceeded :: "string \<Rightarrow> string \<Rightarrow> FileSystem \<Rightarrow> string list \<Rightarrow> bool" where
  \<comment> \<open>what a successful single-sided scan leaves: the final path is returned and holds a
      file with content, and nothing lies at the temporary path\<close>
  "scanSucceeded t f fs files =
     (files = [f] \<and> (t = f \<or> map_of fs t = None)
      \<and> (case map_of fs f of None \<Rightarrow> False | Some e \<Rightarrow> 0 < st_size e \<and> \<not> dangling e))"

definition fileSize :: "string \<Rightarrow> FileSystem \<Rightarrow> string \<Rightarrow> nat" where
  \<comment> \<open>the size of the entry \<open>f\<close> of directory \<open>dir\<close>\<close>
  "fileSize dir fs f = (case map_of fs (path_join dir f) of None \<Rightarrow> 0 | Some e \<Rightarrow> st_size e)"

definition fileMtime :: "string \<Rightarrow> FileSystem \<Rightarrow> string \<Rightarrow> int" where
  \<comment> \<open>the modification time of the entry \<open>f\<close> of directory \<open>dir\<close>\<close>
  "fileMtime dir fs f = (case map_of fs (path_join dir f) of None \<Rightarrow> 0 | Some e \<Rightarrow> mtime e)"

definition readableEntry :: "string \<Rightarrow> FileSystem \<Rightarrow> string \<Rightarrow> bool" where
  \<comment> \<open>\<^verbatim>\<open>statSync\<close> succeeds on the entry \<open>f\<close> of directory \<open>dir\<close>\<close>
  "readableEntry dir fs f =
     (case map_of fs (path_join dir f) of None \<Rightarrow> False | Some e \<Rightarrow> \<not> dangling e)"


definition removableFile :: "string \<Rightarrow> FileSystem \<Rightarrow> string \<Rightarrow> bool" where
  \<comment> \<open>a regular file on which \<^verbatim>\<open>unlinkSync\<close> succeeds\<close>
  "removableFile dir fs f =
     (case map_of fs (path_join dir f) of
        None \<Rightarrow> False
      | Some e \<Rightarrow> \<not> isDirectory e \<and> \<not> dangling e \<and> \<not> immutable e)"







definition anonymous :: "PageInfo \<Rightarrow> PageInfo" where
  \<comment> \<open>a page without its generated id\<close>
  "anonymous p = p\<lparr>page_id := []\<rparr>"

definition scanFilesIn :: "string \<Rightarrow> FileSystem \<Rightarrow> string list \<Rightarrow> string list" where
  \<comment> \<open>the entries of the listing that have a scan file's name and have content\<close>
  "scanFilesIn dir fs names = filter (\<lambda>f. isScanFile f \<and> 0 < fileSize dir fs f) names"

definition scanEntriesReadable :: "string \<Rightarrow> FileSystem \<Rightarrow> string list \<Rightarrow> bool" where
  \<comment> \<open>\<^verbatim>\<open>statSync\<close> succeeds on every entry of the listing that has a scan file's name\<close>
  "scanEntriesReadable dir fs names = list_all (readableEntry dir fs) (filter isScanFile names)"

definition filePage :: "string \<Rightarrow> FileSystem \<Rightarrow> string \<Rightarrow> PageInfo" where
  "filePage dir fs f =
     \<lparr>page_id = [], filename = f, filepath = path_join dir f, timestamp = fileMtime dir fs f,
      page_size = fileSize dir fs f, pageNumber = 0\<rparr>"

definition expectedPages :: "string \<Rightarrow> FileSystem \<Rightarrow> string list \<Rightarrow> PageInfo list" where
  \<comment> \<open>what the specification asks of a rebuilt session: the scan files with content, sorted
      by modification time and numbered from 1\<close>
  "expectedPages dir fs names =
     numberFrom 0 (sort_key timestamp (map (filePage dir fs) (scanFilesIn dir fs names)))"

fun freshPages :: "(nat \<Rightarrow> string) \<Rightarrow> string \<Rightarrow> FileSystem \<Rightarrow> nat \<Rightarrow> string list \<Rightarrow> PageInfo list" where
  \<comment> \<open>the page objects \<^verbatim>\<open>loadSessions\<close> creates for a list of file names, when every
      \<^verbatim>\<open>statSync\<close> succeeds\<close>
  "freshPages gen dir fs k [] = []"
| "freshPages gen dir fs k (f # rest) =
     (if 0 < fileSize dir fs f
      then (filePage dir fs f)\<lparr>page_id := gen k\<rparr> # freshPages gen dir fs (Suc k) rest
      else freshPages gen dir fs k rest)"

definition wellNumbered :: "DocumentSessionManager \<Rightarrow> DocumentSession \<Rightarrow> bool" where
  \<comment> \<open>the pages of the session carry the numbers 1, 2, ..., N\<close>
  "wellNumbered m s = (map pageNumber (pageList m s) = [1 ..< Suc (length (pages s))])"

definition validRefs :: "DocumentSessionManager \<Rightarrow> DocumentSession \<Rightarrow> bool" where
  \<comment> \<open>the entries of \<^verbatim>\<open>session.pages\<close> are different objects of the store\<close>
  "validRefs m s = (distinct (pages s) \<and> list_all (\<lambda>r. r < length (heap m)) (pages s))"


section \<open>Concrete scenarios\<close>

text \<open>The inputs at which the theorems below are evaluated.\<close>

definition dirStat :: Entry where
  \<comment> \<open>a directory\<close>
  "dirStat = \<lparr>isDirectory = True, st_size = 4096, mtime = 0, dangling = False, immutable = False\<rparr>"

definition fileStat :: "nat \<Rightarrow> int \<Rightarrow> Entry" where
  \<comment> \<open>a regular file of \<open>n\<close> bytes, last written at time \<open>t\<close>\<close>
  "fileStat n t = \<lparr>isDirectory = False, st_size = n, mtime = t, dangling = False, immutable = False\<rparr>"

definition noDeviceEnv :: ScanEnv where
  \<comment> \<open>every capture is rejected with the \<^verbatim>\<open>no SANE devices found\<close> message and leaves
      the directory as it is; the device listing prints nothing\<close>
  "noDeviceEnv =
     \<lparr>listing = (\<lambda>k. Inr ([], [])),
      capture = (\<lambda>k fs. (Some ''Command failed: scanimage: no SANE devices found'', fs)),
      clock = (\<lambda>k. 1000 * int k),
      toISOString = (\<lambda>t. ''2024-01-01T10:00:00.000Z''),
      regex = (\<lambda>line. None)\<rparr>"

definition emptyWorld :: ScanWorld where
  "emptyWorld =
     \<lparr>fsys = [(''/tmp'', dirStat)],
      scannerManager = \<lparr>cachedScanner = None, lastSuccessfulScan = None\<rparr>,
      listings = 0, captures = 0, fixCalls = 0, ticks = 0\<rparr>"

definition directSettings :: "bool \<Rightarrow> Settings" where
  \<comment> \<open>a configured device URL; the argument is the \<^verbatim>\<open>duplex\<close> flag\<close>
  "directSettings dup =
     \<lparr>scanOutputDir = ''/tmp'', outputFormat = ''pdf'', duplex = dup,
      scannerDeviceUrl = ''escl:http://10.0.0.5''\<rparr>"

definition tmpSettings :: Settings where
  "tmpSettings = \<lparr>scanOutputDir = ''/tmp'', outputFormat = ''pdf'', duplex = False, scannerDeviceUrl = []\<rparr>"

definition onePageFs :: FileSystem where
  "onePageFs = [(''/tmp'', dirStat), (''/tmp/scan-a.pdf'', fileStat 10 100)]"

definition emptyManager :: DocumentSessionManager where
  "emptyManager = \<lparr>sessions = [], heap = [], idCalls = 0\<rparr>"

definition pageA :: "string \<Rightarrow> nat \<Rightarrow> PageInfo" where
  "pageA i n = \<lparr>page_id = i, filename = ''scan-a.pdf'', filepath = ''/tmp/scan-a.pdf'',
                 timestamp = 100, page_size = 10, pageNumber = n\<rparr>"

definition staleWorld :: "(nat \<Rightarrow> string) \<Rightarrow> FileSystem \<times> DocumentSessionManager" where
  \<comment> \<open>the session was read while \<^verbatim>\<open>/tmp/scan-a.pdf\<close> existed; the file is gone since\<close>
  "staleWorld gen =
     ([(''/tmp'', dirStat)], snd (fst (getSession gen tmpSettings ''default'' (onePageFs, emptyManager))))"

definition tempPath :: string where
  "tempPath = ''/tmp/scan-2024-01-01T10-00-00-000Z.pdf.tmp''"

definition finalPath :: string where
  "finalPath = ''/tmp/scan-2024-01-01T10-00-00-000Z.pdf''"

definition ioErrorEnv :: ScanEnv where
  \<comment> \<open>the capture command writes five bytes through the redirection and is then rejected\<close>
  "ioErrorEnv =
     \<lparr>listing = (\<lambda>k. Inr ([], [])),
      capture = (\<lambda>k fs. (Some ''Command failed: scanimage: Error during device I/O'',
                          fs @ [(tempPath, fileStat 5 0)])),
      clock = (\<lambda>k. 1000 * int k),
      toISOString = (\<lambda>t. ''2024-01-01T10:00:00.000Z''),
      regex = (\<lambda>line. None)\<rparr>"

definition emptyTempEnv :: ScanEnv where
  \<comment> \<open>the redirection creates the temporary file, the capture command writes nothing and is
      rejected\<close>
  "emptyTempEnv =
     \<lparr>listing = (\<lambda>k. Inr ([], [])),
      capture = (\<lambda>k fs. (Some ''Command failed: scanimage: Error during device I/O'',
                          fs @ [(tempPath, fileStat 0 0)])),
      clock = (\<lambda>k. 1000 * int k),
      toISOString = (\<lambda>t. ''2024-01-01T10:00:00.000Z''),
      regex = (\<lambda>line. None)\<rparr>"

definition goodEnv :: ScanEnv where
  \<comment> \<open>the capture command writes a page of 1000 bytes\<close>
  "goodEnv =
     \<lparr>listing = (\<lambda>k. Inr ([], [])),
      capture = (\<lambda>k fs. (None, fs @ [(tempPath, fileStat 1000 0)])),
      clock = (\<lambda>k. 1000 * int k),
      toISOString = (\<lambda>t. ''2024-01-01T10:00:00.000Z''),
      regex = (\<lambda>line. None)\<rparr>"

definition batchPre :: string where
  "batchPre = ''scan-2024-01-01T10-00-00-000Z-p''"


definition threeFilesFs :: FileSystem where
  \<comment> \<open>the listing gives \<^verbatim>\<open>scan-b.pdf\<close> first, \<^verbatim>\<open>scan-a.pdf\<close> is older, and
      \<^verbatim>\<open>scan-c.pdf\<close> is empty\<close>
  "threeFilesFs =
     [(''/tmp'', dirStat),
      (''/tmp/scan-b.pdf'', fileStat 20 300),
      (''/tmp/scan-a.pdf'', fileStat 10 100),
      (''/tmp/scan-c.pdf'', fileStat 0 50)]"

definition partialBatchEnv :: ScanEnv where
  \<comment> \<open>the batch capture writes five bytes of the first page and is then rejected\<close>
  "partialBatchEnv =
     \<lparr>listing = (\<lambda>k. Inr ([], [])),
      capture = (\<lambda>k fs. (Some ''Command failed: scanimage: Error during device I/O'',
                          fs @ [(''/tmp/'' @ batchPre @ ''1.pdf'', fileStat 5 0)])),
      clock = (\<lambda>k. 1000 * int k),
      toISOString = (\<lambda>t. ''2024-01-01T10:00:00.000Z''),
      regex = (\<lambda>line. None)\<rparr>"

definition brokenLinkFs :: FileSystem where
  \<comment> \<open>a scan file with content, and beside it a symbolic link whose target is gone\<close>
  "brokenLinkFs =
     [(''/tmp'', dirStat),
      (''/tmp/scan-a.pdf'', fileStat 10 100),
      (''/tmp/scan-b.pdf'', (fileStat 0 0)\<lparr>dangling := True\<rparr>)]"

definition sampleIds :: "nat \<Rightarrow> string" where
  \<comment> \<open>the ids \<^verbatim>\<open>generateId\<close> returns when the clock reads 1000, 1001, ... and the random
      number is always \<^verbatim>\<open>0.5\<close>: \<^verbatim>\<open>rs5\<close>, \<^verbatim>\<open>rt5\<close>, \<^verbatim>\<open>ru5\<close>, ...\<close>
  "sampleIds = generatedIds (\<lambda>k. 1000 + int k) (\<lambda>k. ''0.5'')"


definition twoPagesFs :: FileSystem where
  "twoPagesFs =
     [(''/tmp'', dirStat),
      (''/tmp/scan-a.pdf'', fileStat 10 100),
      (''/tmp/scan-b.pdf'', fileStat 20 300)]"

definition pageB :: "string \<Rightarrow> nat \<Rightarrow> PageInfo" where
  "pageB i n = \<lparr>page_id = i, filename = ''scan-b.pdf'', filepath = ''/tmp/scan-b.pdf'',
                 timestamp = 300, page_size = 20, pageNumber = n\<rparr>"

definition twoPageDoc :: "FileSystem \<times> DocumentSessionManager" where
  \<comment> \<open>the two scan files of the directory have been added, one after the other, to a
      session \<^verbatim>\<open>doc1\<close>\<close>
  "twoPageDoc =
     fst (addPageToSession sampleIds tmpSettings ''doc1'' ''/tmp/scan-b.pdf'' 2
            (fst (addPageToSession sampleIds tmpSettings ''doc1'' ''/tmp/scan-a.pdf'' 1
                    (twoPagesFs, emptyManager))))"

definition addedToDefault :: "FileSystem \<times> DocumentSessionManager" where
  \<comment> \<open>the scan file of the directory has been added to the default session, which then
      holds the page of the rebuild and the page added\<close>
  "addedToDefault =
     fst (addPageToSession sampleIds tmpSettings ''default'' ''/tmp/scan-a.pdf'' 1
            (onePageFs, emptyManager))"


section \<open>Evaluation rules\<close>

lemmas string_defs =
  startsWith_def endsWith_def trim_def isWhiteSpace_def toLowerCase_def toLowerChar_def
  split_ws_def dashStamp_def

lemmas fs_defs =
  existsSync_def statSync_def unlinkSync_def readdirSync_def renameSync_def writeFileSync_def
  path_join_def child_name_def fsError_def List.map_filter_def Stat.defs

section \<open>Scanner registry: the cache\<close>

text \<open>
  C8. \<^const>\<open>getCachedScanner\<close> returns the cached descriptor exactly when one is cached
  and the recorded success is strictly less than one hour old; otherwise it returns
  \<^verbatim>\<open>null\<close>. A descriptor marked successful at time \<open>T\<close> is returned at every instant
  before \<open>T + 1h\<close>, and at \<open>T + 1h\<close> and later the result is \<^verbatim>\<open>null\<close>.
\<close>

theorem getCachedScanner_fresh_window:
  "(getCachedScanner now st = Some s \<longleftrightarrow>
      cachedScanner st = Some s \<and> (\<exists>t. lastSuccessfulScan st = Some t \<and> now - t < 60 * 60 * 1000))
   \<and> (getCachedScanner now st = None \<longleftrightarrow>
      cachedScanner st = None \<or> lastSuccessfulScan st = None
      \<or> (\<exists>t. lastSuccessfulScan st = Some t \<and> now - t \<ge> 60 * 60 * 1000))
   \<and> getCachedScanner now (markSuccessfulScan s T st)
       = (if now < T + 60 * 60 * 1000 then Some s else None)"
  by (auto simp: getCachedScanner_def markSuccessfulScan_def Let_def split: option.splits)

section \<open>Scanner registry: detection failures\<close>

text \<open>
  Output that is not blank always has a line that is not blank, so the test
  \<^verbatim>\<open>scanners.length === 0 && lines.length > 0\<close> catches every listing from which no
  device was parsed, whatever the cache holds, and the cache fallback written after it
  is never reached. The three other failure classes do fall back.
\<close>

lemma split_on_concat: "concat (split_on c s) = filter (\<lambda>x. x \<noteq> c) s"
  by (induction s) (auto split: list.splits)

lemma in_dropWhile: "x \<in> set l \<Longrightarrow> \<not> P x \<Longrightarrow> x \<in> set (dropWhile P l)"
  by (induction l) auto

lemma trim_nonempty_iff: "trim l \<noteq> [] \<longleftrightarrow> list_ex (\<lambda>x. \<not> isWhiteSpace x) l"
  by (auto simp: trim_def dropWhile_eq_Nil_conv list_ex_iff dest: set_dropWhileD intro: in_dropWhile)

lemma nonblank_has_nonblank_line:
  assumes "trim s \<noteq> []"
  shows "filter (\<lambda>line. trim line \<noteq> []) (split_on (CHR 0x0A) s) \<noteq> []"
proof -
  from assms obtain x where x: "x \<in> set s" "\<not> isWhiteSpace x"
    by (auto simp: trim_nonempty_iff list_ex_iff)
  then have "x \<noteq> CHR 0x0A" by (auto simp: isWhiteSpace_def)
  with x have "x \<in> set (concat (split_on (CHR 0x0A) s))"
    by (simp add: split_on_concat)
  then obtain l where l: "l \<in> set (split_on (CHR 0x0A) s)" "x \<in> set l" by auto
  with x have "trim l \<noteq> []" by (auto simp: trim_nonempty_iff list_ex_iff)
  with l show ?thesis by (auto simp: filter_empty_conv)
qed

lemma detectScanners_nothing_parsed:
  assumes "\<not> str_includes stdout ''No scanners were identified''"
    and "\<not> str_includes stderr ''No scanners were identified''"
    and "trim stdout \<noteq> []"
    and "parseLines rx (filter (\<lambda>line. trim line \<noteq> []) (split_on (CHR 0x0A) stdout)) = []"
  shows "detectScanners rx (Inr (stdout, stderr)) now st
         = (st, ([], Some (''Could not parse scanner information. Raw output: ''
                           @ join '' | '' (filter (\<lambda>line. trim line \<noteq> []) (split_on (CHR 0x0A) stdout)))))"
proof -
  from assms(3) have "stdout \<noteq> []" by (auto simp: trim_def)
  moreover have "filter (\<lambda>line. trim line \<noteq> []) (split_on (CHR 0x0A) stdout) \<noteq> []"
    using assms(3) by (rule nonblank_has_nonblank_line)
  ultimately show ?thesis
    using assms by (simp add: detectScanners_def Let_def)
qed

lemma detectScanners_fallbacks:
  assumes "getCachedScanner now st = Some s"
  shows "detectScanners rx (Inl e) now st = (st, ([s], None))"
    and "str_includes out ''No scanners were identified'' \<or> str_includes err ''No scanners were identified''
         \<Longrightarrow> detectScanners rx (Inr (out, err)) now st = (st, ([s], None))"
    and "\<not> str_includes out ''No scanners were identified'' \<Longrightarrow> \<not> str_includes err ''No scanners were identified''
         \<Longrightarrow> trim out = [] \<Longrightarrow> detectScanners rx (Inr (out, err)) now st = (st, ([s], None))"
  using assms by (auto simp: detectScanners_def)

text \<open>
  C1. With a descriptor marked successful ten minutes ago, a listing from which no device
  is parsed (the single line \<^verbatim>\<open>hello\<close>) returns no scanner and an error, while an
  empty listing, a listing with the "No scanners were identified" message and a failed
  command each return the cached descriptor with no error.
\<close>

theorem detectScanners_unparsed_output_ignores_cache:
  "detectScanners rx (Inr (''hello'', [])) (T + 10 * 60 * 1000) (markSuccessfulScan s T st)
     = (markSuccessfulScan s T st,
        ([], Some ''Could not parse scanner information. Raw output: hello''))
   \<and> detectScanners rx (Inr ([], [])) (T + 10 * 60 * 1000) (markSuccessfulScan s T st)
     = (markSuccessfulScan s T st, ([s], None))
   \<and> detectScanners rx (Inr (''No scanners were identified.'', [])) (T + 10 * 60 * 1000)
        (markSuccessfulScan s T st)
     = (markSuccessfulScan s T st, ([s], None))
   \<and> detectScanners rx (Inl ''Command failed: scanimage -L'') (T + 10 * 60 * 1000)
        (markSuccessfulScan s T st)
     = (markSuccessfulScan s T st, ([s], None))"
  by (simp add: detectScanners_def getCachedScanner_def markSuccessfulScan_def string_defs)

section \<open>Scan executor: recovery\<close>

lemma captureOnce_counts:
  "captures (fst (captureOnce env t f sc w)) = Suc (captures w)
   \<and> fixCalls (fst (captureOnce env t f sc w)) = fixCalls w
   \<and> listings (fst (captureOnce env t f sc w)) = listings w"
  by (auto simp: captureOnce_def markIfDetected_def readClock_def Let_def
           split: prod.splits option.splits sum.splits)

lemma captureOnce_rejected:
  "capture env (captures w) (fsys w) = (Some e, fs1) \<Longrightarrow>
   captureOnce env t f sc w = (w\<lparr>fsys := fs1, captures := Suc (captures w)\<rparr>, Inl e)"
  by (simp add: captureOnce_def)

lemma runAttemptFix_counts:
  "fixCalls (snd (runAttemptFix env w)) = Suc (fixCalls w)
   \<and> captures (snd (runAttemptFix env w)) = captures w
   \<and> fsys (snd (runAttemptFix env w)) = fsys w"
  by (auto simp: runAttemptFix_def readClock_def split: prod.splits)

lemma singleScan_recovers:
  assumes rej: "capture env (captures w) (fsys w) = (Some e, fs1)"
    and nodev: "str_includes e ''no SANE devices found''"
  shows "fixCalls (fst (singleScan env t f sc w)) = Suc (fixCalls w)
         \<and> captures (fst (singleScan env t f sc w))
             = (if fst (fst (runAttemptFix env
                       ((w\<lparr>fsys := fs1, captures := Suc (captures w)\<rparr>)\<lparr>fsys := cleanupTemp t fs1\<rparr>)))
                then Suc (Suc (captures w)) else Suc (captures w))"
proof -
  define w2 where "w2 = (w\<lparr>fsys := fs1, captures := Suc (captures w)\<rparr>)\<lparr>fsys := cleanupTemp t fs1\<rparr>"
  obtain ok msg w3 where fx: "runAttemptFix env w2 = ((ok, msg), w3)"
    by (metis surj_pair)
  have w3: "fixCalls w3 = Suc (fixCalls w)" "captures w3 = Suc (captures w)"
    using runAttemptFix_counts[of env w2] fx by (simp_all add: w2_def)
  obtain w4 r4 where retry: "captureOnce env t f sc w3 = (w4, r4)"
    by (metis surj_pair)
  have w4: "fixCalls w4 = Suc (fixCalls w)" "captures w4 = Suc (Suc (captures w))"
    using captureOnce_counts[of env t f sc w3] retry w3 by simp_all
  have first: "captureOnce env t f sc w = (w\<lparr>fsys := fs1, captures := Suc (captures w)\<rparr>, Inl e)"
    using rej by (rule captureOnce_rejected)
  show ?thesis
  proof (cases ok)
    case True
    then show ?thesis
      using first nodev fx retry w4
      by (cases r4) (simp_all add: singleScan_def Let_def w2_def[symmetric])
  next
    case False
    then show ?thesis
      using first nodev fx w3
      by (simp add: singleScan_def Let_def w2_def[symmetric])
  qed
qed

lemma singleScan_terminal:
  assumes "captureOnce env t f sc w = (w1, Inl e)"
    and "\<not> str_includes e ''no SANE devices found''"
  shows "fixCalls (fst (singleScan env t f sc w)) = fixCalls w"
    and "captures (fst (singleScan env t f sc w)) = Suc (captures w)"
  using assms captureOnce_counts[of env t f sc w]
  by (auto simp: singleScan_def Let_def split: prod.splits sum.splits)

lemma duplexScan_never_fixes:
  "fixCalls (fst (duplexScan env dir batchPrefix ext scanner w)) = fixCalls w
   \<and> captures (fst (duplexScan env dir batchPrefix ext scanner w)) = Suc (captures w)"
  by (auto simp: duplexScan_def markIfDetected_def readClock_def Let_def
           split: prod.splits option.splits sum.splits)

lemma scanPage_noDevice_duplex:
  "scanPage noDeviceEnv (directSettings True) emptyWorld
     = (emptyWorld\<lparr>captures := 1, ticks := 1\<rparr>,
        Inl ''Duplex scan failed: Command failed: scanimage: no SANE devices found'')"
  by (simp add: noDeviceEnv_def emptyWorld_def directSettings_def dirStat_def
        scanPage_def resolveDevice_def readClock_def duplexScan_def cleanupBatch_def
        isBatchFile_def string_defs fs_defs Let_def)

lemma scanPage_noDevice_single:
  "scanPage noDeviceEnv (directSettings False) emptyWorld
     = singleScan noDeviceEnv ''/tmp/scan-2024-01-01T10-00-00-000Z.pdf.tmp''
         ''/tmp/scan-2024-01-01T10-00-00-000Z.pdf'' None (emptyWorld\<lparr>ticks := 1\<rparr>)"
  by (simp add: noDeviceEnv_def emptyWorld_def directSettings_def
        scanPage_def resolveDevice_def readClock_def string_defs Let_def)

text \<open>
  C3. Every capture is rejected with \<^verbatim>\<open>no SANE devices found\<close> and a device URL is
  configured. The duplex scan runs the capture command once, never calls
  \<^verbatim>\<open>attemptFix\<close> and fails; the single-sided scan with the same settings calls
  \<^verbatim>\<open>attemptFix\<close>.
\<close>

theorem scanPage_duplex_no_recovery:
  "snd (scanPage noDeviceEnv (directSettings True) emptyWorld)
     = Inl ''Duplex scan failed: Command failed: scanimage: no SANE devices found''
   \<and> fixCalls (fst (scanPage noDeviceEnv (directSettings True) emptyWorld)) = 0
   \<and> captures (fst (scanPage noDeviceEnv (directSettings True) emptyWorld)) = 1
   \<and> fixCalls (fst (scanPage noDeviceEnv (directSettings False) emptyWorld)) = 1"
proof -
  have rej: "capture noDeviceEnv (captures (emptyWorld\<lparr>ticks := 1\<rparr>)) (fsys (emptyWorld\<lparr>ticks := 1\<rparr>))
             = (Some ''Command failed: scanimage: no SANE devices found'', fsys emptyWorld)"
    by (simp add: noDeviceEnv_def)
  have inc: "str_includes ''Command failed: scanimage: no SANE devices found'' ''no SANE devices found''"
    by (simp add: startsWith_def)
  have "fixCalls (fst (singleScan noDeviceEnv t f None (emptyWorld\<lparr>ticks := 1\<rparr>)))
          = Suc (fixCalls (emptyWorld\<lparr>ticks := 1\<rparr>))" for t f
    using singleScan_recovers[OF rej inc] by blast
  then have "fixCalls (fst (scanPage noDeviceEnv (directSettings False) emptyWorld))
               = Suc (fixCalls (emptyWorld\<lparr>ticks := 1\<rparr>))"
    by (simp only: scanPage_noDevice_single)
  then show ?thesis
    unfolding scanPage_noDevice_duplex by (simp add: emptyWorld_def)
qed

section \<open>Sessions: page numbering\<close>

lemma isScanFile_a: "isScanFile ''scan-a.pdf''"
  by (simp add: isScanFile_def validExtensions_def string_defs)

lemma readdir_onePage: "readdirSync ''/tmp'' onePageFs = Inr [''scan-a.pdf'']"
  by (simp add: onePageFs_def dirStat_def fileStat_def fs_defs)

lemma stat_onePage:
  "statSync (path_join ''/tmp'' ''scan-a.pdf'') onePageFs = Inr \<lparr>isDirectory = False, st_size = 10, mtime = 100\<rparr>"
  "statSync ''/tmp/scan-a.pdf'' onePageFs = Inr \<lparr>isDirectory = False, st_size = 10, mtime = 100\<rparr>"
   "existsSync ''/tmp'' onePageFs" "existsSync ''/tmp/scan-a.pdf'' onePageFs"
  by (simp_all add: onePageFs_def fileStat_def dirStat_def fs_defs)

lemma load_onePage:
  "loadSessions gen tmpSettings (onePageFs, m)
     = (onePageFs,
        m\<lparr>sessions := AList.update ''default''
               \<lparr>session_id = ''default'', session_name = ''Current Document'',
                pages = [length (heap m)], created = 100, modified = 100\<rparr> (sessions m),
           heap := heap m @ [pageA (gen (idCalls m)) 1],
           idCalls := Suc (idCalls m)\<rparr>)"
  by (simp add: loadSessions_def tmpSettings_def readdir_onePage stat_onePage isScanFile_a
        fileStat_def List.map_filter_def pageA_def path_join_def Let_def)

lemma add_doc1:
  "addPageToSession gen tmpSettings ''doc1'' ''/tmp/scan-a.pdf'' 1 (onePageFs, emptyManager)
     = ((onePageFs,
         \<lparr>sessions = [(''default'', \<lparr>session_id = ''default'', session_name = ''Current Document'',
                                     pages = [0], created = 100, modified = 100\<rparr>),
                       (''doc1'', \<lparr>session_id = ''doc1'', session_name = ''Document doc1'',
                                  pages = [1], created = 1, modified = 1\<rparr>)],
          heap = [pageA (gen 0) 1, pageA (gen 1) 1],
          idCalls = 2\<rparr>), Inr ())"
  by (simp add: addPageToSession_def getSession_def load_onePage emptyManager_def stat_onePage
        newSession_def fileStat_def basename_def pageA_def)

lemma reorder_doc1:
  "reorderPages gen tmpSettings ''doc1'' [gen 1, gen 1] 2
     (fst (addPageToSession gen tmpSettings ''doc1'' ''/tmp/scan-a.pdf'' 1 (onePageFs, emptyManager)))
     = ((onePageFs,
         \<lparr>sessions = [(''default'', \<lparr>session_id = ''default'', session_name = ''Current Document'',
                                     pages = [2], created = 100, modified = 100\<rparr>),
                       (''doc1'', \<lparr>session_id = ''doc1'', session_name = ''Document doc1'',
                                  pages = [1, 1], created = 1, modified = 2\<rparr>)],
          heap = [pageA (gen 0) 1, pageA (gen 1) 2, pageA (gen 2) 1],
          idCalls = 3\<rparr>), Inr ())"
  by (simp add: add_doc1 reorderPages_def getSession_def load_onePage pageA_def)

text \<open>
  C6. A session \<^verbatim>\<open>doc1\<close> holds one page, added by \<^verbatim>\<open>addPageToSession\<close>. Reordering it
  with that page's id given twice succeeds, and the session then has two entries for the
  same page object, both numbered 2: the numbers are not \<open>1, 2\<close>.
\<close>

theorem reorderPages_repeated_id_breaks_numbering:
  "snd (addPageToSession gen tmpSettings ''doc1'' ''/tmp/scan-a.pdf'' 1 (onePageFs, emptyManager)) = Inr ()
   \<and> snd (reorderPages gen tmpSettings ''doc1'' [gen 1, gen 1] 2
          (fst (addPageToSession gen tmpSettings ''doc1'' ''/tmp/scan-a.pdf'' 1 (onePageFs, emptyManager))))
       = Inr ()
   \<and> pageNumbers
        (snd (fst (reorderPages gen tmpSettings ''doc1'' [gen 1, gen 1] 2
          (fst (addPageToSession gen tmpSettings ''doc1'' ''/tmp/scan-a.pdf'' 1 (onePageFs, emptyManager))))))
        ''doc1''
       = Some [2, 2]"
  unfolding reorder_doc1 by (simp add: add_doc1 pageNumbers_def pageList_def pageA_def)

lemma staleWorld_eq:
  "staleWorld gen =
     ([(''/tmp'', dirStat)],
      \<lparr>sessions = [(''default'', \<lparr>session_id = ''default'', session_name = ''Current Document'',
                                  pages = [0], created = 100, modified = 100\<rparr>)],
       heap = [pageA (gen 0) 1], idCalls = 1\<rparr>)"
  by (simp add: staleWorld_def getSession_def load_onePage emptyManager_def)

section \<open>Combining a session whose page files are gone\<close>

lemma getSession_stale:
  assumes "scanOutputDir settings = ''/tmp''"
  shows "getSession gen settings sessionId ([(''/tmp'', dirStat)], m)
         = (([(''/tmp'', dirStat)], m), map_of (sessions m) sessionId)"
  using assms by (simp add: getSession_def loadSessions_def dirStat_def fs_defs Let_def)

lemma combine_stale_pdf:
  "combineSessionPages gen tmpSettings pdfLoad pdfSave merge ''default'' isoTime now (staleWorld gen)
     = (case pdfSave [] of
          Inl e \<Rightarrow> (staleWorld gen, Inl (''Failed to combine PDF pages: '' @ e))
        | Inr n \<Rightarrow>
            ((fst (staleWorld gen)
                @ [(''/tmp/combined-default-'' @ dashStamp isoTime @ ''.pdf'', fileStat n now)],
              snd (staleWorld gen)),
             Inr (''/tmp/combined-default-'' @ dashStamp isoTime @ ''.pdf'')))"
proof -
  have dir: "scanOutputDir tmpSettings = ''/tmp''" "outputFormat tmpSettings = ''pdf''"
    by (simp_all add: tmpSettings_def)
  show ?thesis
    unfolding staleWorld_eq combineSessionPages_def getSession_stale[OF dir(1)] dir
    by (simp add: Let_def pageList_def pageA_def combinePdfPages_def existsSync_def writeFileSync_def
          path_join_def dirStat_def fileStat_def split: sum.splits)
qed

lemma combine_stale_tiff:
  "combineSessionPages gen (tmpSettings\<lparr>outputFormat := ''tiff''\<rparr>) pdfLoad pdfSave merge ''default''
       isoTime now (staleWorld gen)
     = (staleWorld gen, Inl ''Failed to combine TIFF pages into PDF: No valid TIFF files to combine'')"
proof -
  have dir: "scanOutputDir (tmpSettings\<lparr>outputFormat := ''tiff''\<rparr>) = ''/tmp''"
    "outputFormat (tmpSettings\<lparr>outputFormat := ''tiff''\<rparr>) = ''tiff''"
    by (simp_all add: tmpSettings_def)
  show ?thesis
    unfolding staleWorld_eq combineSessionPages_def getSession_stale[OF dir(1)] dir
    by (simp add: Let_def pageList_def pageA_def combineTiffPages_def existsSync_def dirStat_def)
qed

lemma appendPdfPages_all_missing:
  "list_all (\<lambda>p. \<not> existsSync (filepath p) fs) ps \<Longrightarrow> appendPdfPages pdfLoad fs ps doc = Inr doc"
  by (induction ps) simp_all

lemma combinePdfPages_all_missing:
  assumes "list_all (\<lambda>p. \<not> existsSync (filepath p) fs) ps"
  shows "combinePdfPages pdfLoad pdfSave ps dir sessionId isoTime now fs
         = (case pdfSave [] of
              Inl e \<Rightarrow> (fs, Inl (''Failed to combine PDF pages: '' @ e))
            | Inr n \<Rightarrow>
                (case writeFileSync dir (path_join dir (''combined-'' @ sessionId @ ''-'' @ dashStamp isoTime @ ''.pdf'')) n now fs of
                   Inl e \<Rightarrow> (fs, Inl (''Failed to combine PDF pages: '' @ e))
                 | Inr fs' \<Rightarrow> (fs', Inr (path_join dir (''combined-'' @ sessionId @ ''-'' @ dashStamp isoTime @ ''.pdf'')))))"
  using assms by (auto simp: combinePdfPages_def appendPdfPages_all_missing Let_def split: sum.splits)

lemma combineTiffPages_all_missing:
  assumes "list_all (\<lambda>p. \<not> existsSync (filepath p) fs) ps"
  shows "combineTiffPages merge ps dir sessionId isoTime fs
         = (fs, Inl ''Failed to combine TIFF pages into PDF: No valid TIFF files to combine'')"
proof -
  have "filter (\<lambda>page. existsSync (filepath page) fs) ps = []"
    using assms by (induction ps) simp_all
  then show ?thesis by (simp add: combineTiffPages_def)
qed

text \<open>
  C5. The default session was read while its one page file existed, and the file has been
  removed since. With output format \<^verbatim>\<open>pdf\<close>, \<^verbatim>\<open>combineSessionPages\<close> fails only if
  the library's \<^verbatim>\<open>save()\<close> throws on a document without pages; otherwise it writes
  the output file and returns its path. (\<^verbatim>\<open>pdf-lib\<close> does not throw there: it adds a
  blank page.) With output format \<^verbatim>\<open>tiff\<close> the same call fails and writes nothing.
\<close>

theorem combineSessionPages_pdf_without_pages:
  "\<not> existsSync ''/tmp/scan-a.pdf'' (fst (staleWorld gen))
   \<and> snd (combineSessionPages gen tmpSettings pdfLoad pdfSave merge ''default'' isoTime now (staleWorld gen))
       = (case pdfSave [] of
            Inl e \<Rightarrow> Inl (''Failed to combine PDF pages: '' @ e)
          | Inr n \<Rightarrow> Inr (''/tmp/combined-default-'' @ dashStamp isoTime @ ''.pdf''))
   \<and> existsSync (''/tmp/combined-default-'' @ dashStamp isoTime @ ''.pdf'')
         (fst (fst (combineSessionPages gen tmpSettings pdfLoad pdfSave merge ''default'' isoTime now
                      (staleWorld gen))))
       = (case pdfSave [] of Inl e \<Rightarrow> False | Inr n \<Rightarrow> True)
   \<and> combineSessionPages gen (tmpSettings\<lparr>outputFormat := ''tiff''\<rparr>) pdfLoad pdfSave merge ''default''
         isoTime now (staleWorld gen)
       = (staleWorld gen, Inl ''Failed to combine TIFF pages into PDF: No valid TIFF files to combine'')"
  unfolding combine_stale_pdf combine_stale_tiff
  by (simp add: staleWorld_eq existsSync_def fileStat_def split: sum.splits)

section \<open>Scan executor: the temporary file\<close>

lemma map_of_filter_key [simp]:
  "map_of (filter (\<lambda>e. fst e \<noteq> k) fs) k' = (if k' = k then None else map_of fs k')"
  by (induction fs) auto

lemma map_of_renamed:
  assumes "map_of xs dst = None" and "src \<noteq> dst"
  shows "map_of (map (\<lambda>e. if fst e = src then (dst, snd e) else e) xs) dst = map_of xs src"
    and "map_of (map (\<lambda>e. if fst e = src then (dst, snd e) else e) xs) src = None"
  using assms by (induction xs) (auto split: if_splits)

lemma renameSync_result:
  assumes "renameSync src dst fs = Inr fs'"
  shows "map_of fs' dst = map_of fs src" and "src = dst \<or> map_of fs' src = None"
    and "\<exists>s. map_of fs src = Some s"
  using assms
  by (auto simp: renameSync_def map_of_renamed split: option.splits if_splits)

lemma truncate_fields [simp]:
  "isDirectory (Stat.truncate e) = isDirectory e" "st_size (Stat.truncate e) = st_size e"
  "mtime (Stat.truncate e) = mtime e"
  by (simp_all add: Stat.defs)

lemma cleanupTemp_no_empty_file: "noEmptyTemp t (cleanupTemp t fs)"
  by (auto simp: noEmptyTemp_def cleanupTemp_def existsSync_def statSync_def unlinkSync_def
           split: option.splits)

lemma cleanupTemp_immutable:
  assumes "map_of fs t = Some e" and "immutable e"
  shows "cleanupTemp t fs = fs"
  using assms by (simp add: cleanupTemp_def existsSync_def statSync_def unlinkSync_def)

lemma cleanupTemp_idem: "cleanupTemp t (cleanupTemp t fs) = cleanupTemp t fs"
  by (auto simp: cleanupTemp_def existsSync_def statSync_def unlinkSync_def split: option.splits)

lemma markIfDetected_fsys [simp]: "fsys (markIfDetected env sc w) = fsys w"
  by (simp add: markIfDetected_def readClock_def split: option.splits prod.splits)

lemma captureOnce_success:
  assumes "captureOnce env t f sc w = (w1, Inr files)"
  shows "files = [f]" and "t = f \<or> map_of (fsys w1) t = None"
    and "\<exists>s. map_of (fsys w1) f = Some s \<and> 0 < st_size s \<and> \<not> dangling s"
  using assms
  by (auto simp: captureOnce_def Let_def statSync_def existsSync_def
           split: prod.splits option.splits sum.splits if_splits
           dest: renameSync_result)

lemma success_noEmptyTemp: "scanSucceeded t f fs files \<Longrightarrow> noEmptyTemp t fs"
  by (auto simp: scanSucceeded_def noEmptyTemp_def split: option.splits)

lemma captureOnce_scanSucceeded:
  "captureOnce env t f sc w = (w1, Inr files) \<Longrightarrow> scanSucceeded t f (fsys w1) files"
  using captureOnce_success[of env t f sc w w1 files]
  by (auto simp: scanSucceeded_def)

text \<open>
  What the clean-up does achieve: after every single-sided scan attempt no zero-byte file
  that could be removed lies at the temporary path, and after a success nothing lies there
  and the final path holds a file with content.
\<close>

lemma singleScan_removes_empty_temp:
  "noEmptyTemp t (fsys (fst (singleScan env t f sc w)))
   \<and> (case snd (singleScan env t f sc w) of
         Inl e \<Rightarrow> True
       | Inr files \<Rightarrow> scanSucceeded t f (fsys (fst (singleScan env t f sc w))) files)"
proof -
  obtain w1 r1 where first: "captureOnce env t f sc w = (w1, r1)" by (metis surj_pair)
  have clean: "noEmptyTemp t (cleanupTemp t fs)" for fs
    by (rule cleanupTemp_no_empty_file)
  show ?thesis
  proof (cases r1)
    case (Inr files)
    then have "singleScan env t f sc w = (w1, Inr files)"
      using first by (simp add: singleScan_def)
    moreover have "scanSucceeded t f (fsys w1) files"
      using first Inr by (simp add: captureOnce_scanSucceeded)
    ultimately show ?thesis by (simp add: success_noEmptyTemp)
  next
    case (Inl e)
    define w2 where "w2 = w1\<lparr>fsys := cleanupTemp t (fsys w1)\<rparr>"
    show ?thesis
    proof (cases "str_includes e ''no SANE devices found''")
      case False
      then have "singleScan env t f sc w
                   = (w2\<lparr>fsys := cleanupTemp t (fsys w2)\<rparr>, Inl (''Scan failed: '' @ e))"
        using first Inl by (simp add: singleScan_def Let_def w2_def)
      then show ?thesis by (simp add: clean)
    next
      case True
      obtain ok msg w3 where fx: "runAttemptFix env w2 = ((ok, msg), w3)" by (metis surj_pair)
      have w3: "fsys w3 = cleanupTemp t (fsys w1)"
        using runAttemptFix_counts[of env w2] fx by (simp add: w2_def)
      show ?thesis
      proof (cases ok)
        case False
        then have "singleScan env t f sc w = (w3, Inl (''Scanner not available: '' @ msg))"
          using first Inl True fx by (simp add: singleScan_def Let_def w2_def[symmetric])
        then show ?thesis by (simp add: w3 clean)
      next
        case ok: True
        obtain w4 r4 where retry: "captureOnce env t f sc w3 = (w4, r4)" by (metis surj_pair)
        show ?thesis
        proof (cases r4)
          case (Inr files)
          then have "singleScan env t f sc w = (w4, Inr files)"
            using first Inl True fx ok retry by (simp add: singleScan_def Let_def w2_def[symmetric])
          moreover have "scanSucceeded t f (fsys w4) files"
            using retry Inr by (simp add: captureOnce_scanSucceeded)
          ultimately show ?thesis by (simp add: success_noEmptyTemp)
        next
          case (Inl retryErr)
          then have "singleScan env t f sc w
                       = (w4\<lparr>fsys := cleanupTemp t (fsys w4)\<rparr>,
                          Inl (''Scan failed after fix attempt: Error: '' @ retryErr))"
            using first \<open>r1 = Inl e\<close> True fx ok retry
            by (simp add: singleScan_def Let_def w2_def[symmetric])
          then show ?thesis by (simp add: clean)
        qed
      qed
    qed
  qed
qed

lemma scanPage_direct_single:
  assumes "toISOString env (clock env (ticks w)) = ''2024-01-01T10:00:00.000Z''"
  shows "scanPage env (directSettings False) w
         = singleScan env tempPath finalPath None (w\<lparr>ticks := Suc (ticks w)\<rparr>)"
  using assms
  by (simp add: directSettings_def scanPage_def resolveDevice_def readClock_def string_defs
        tempPath_def finalPath_def Let_def)

lemma io_not_noDevice:
  "\<not> str_includes ''Command failed: scanimage: Error during device I/O'' ''no SANE devices found''"
  by (simp add: startsWith_def)

lemma temp_not_tmp:
  "tempPath \<noteq> ''/tmp''" "finalPath \<noteq> tempPath" "finalPath \<noteq> ''/tmp''"
  "''/tmp'' \<noteq> tempPath" "tempPath \<noteq> finalPath" "''/tmp'' \<noteq> finalPath"
  by (simp_all add: tempPath_def finalPath_def)

lemma singleScan_other_failure:
  assumes "captureOnce env t f sc w = (w1, Inl e)"
    and "\<not> str_includes e ''no SANE devices found''"
  shows "singleScan env t f sc w
         = (w1\<lparr>fsys := cleanupTemp t (fsys w1)\<rparr>, Inl (''Scan failed: '' @ e))"
  using assms by (simp add: singleScan_def Let_def cleanupTemp_idem)

lemma singleScan_ioError:
  "singleScan ioErrorEnv tempPath finalPath None (emptyWorld\<lparr>ticks := Suc (ticks emptyWorld)\<rparr>)
     = (emptyWorld\<lparr>fsys := [(''/tmp'', dirStat), (tempPath, fileStat 5 0)], captures := 1, ticks := 1\<rparr>,
        Inl ''Scan failed: Command failed: scanimage: Error during device I/O'')"
proof -
  have "captureOnce ioErrorEnv tempPath finalPath None (emptyWorld\<lparr>ticks := Suc (ticks emptyWorld)\<rparr>)
          = (emptyWorld\<lparr>fsys := [(''/tmp'', dirStat), (tempPath, fileStat 5 0)], captures := 1, ticks := 1\<rparr>,
             Inl ''Command failed: scanimage: Error during device I/O'')"
    by (simp add: captureOnce_def ioErrorEnv_def emptyWorld_def)
  from singleScan_other_failure[OF this io_not_noDevice] show ?thesis
    by (simp add: cleanupTemp_def existsSync_def statSync_def temp_not_tmp fileStat_def)
qed

lemma singleScan_emptyTemp:
  "singleScan emptyTempEnv tempPath finalPath None (emptyWorld\<lparr>ticks := Suc (ticks emptyWorld)\<rparr>)
     = (emptyWorld\<lparr>captures := 1, ticks := 1\<rparr>,
        Inl ''Scan failed: Command failed: scanimage: Error during device I/O'')"
proof -
  have "captureOnce emptyTempEnv tempPath finalPath None (emptyWorld\<lparr>ticks := Suc (ticks emptyWorld)\<rparr>)
          = (emptyWorld\<lparr>fsys := [(''/tmp'', dirStat), (tempPath, fileStat 0 0)], captures := 1, ticks := 1\<rparr>,
             Inl ''Command failed: scanimage: Error during device I/O'')"
    by (simp add: captureOnce_def emptyTempEnv_def emptyWorld_def)
  from singleScan_other_failure[OF this io_not_noDevice] show ?thesis
    by (simp add: cleanupTemp_def existsSync_def statSync_def unlinkSync_def temp_not_tmp
          fileStat_def emptyWorld_def)
qed

lemma singleScan_good:
  "singleScan goodEnv tempPath finalPath None (emptyWorld\<lparr>ticks := Suc (ticks emptyWorld)\<rparr>)
     = (emptyWorld\<lparr>fsys := [(''/tmp'', dirStat), (finalPath, fileStat 1000 0)], captures := 1, ticks := 1\<rparr>,
        Inr [finalPath])"
  by (simp add: singleScan_def captureOnce_def goodEnv_def emptyWorld_def markIfDetected_def
        existsSync_def statSync_def renameSync_def temp_not_tmp fileStat_def Let_def)

lemma scanPage_partialBatch:
  "scanPage partialBatchEnv (directSettings True) emptyWorld
     = (emptyWorld\<lparr>captures := 1, ticks := 1\<rparr>,
        Inl ''Duplex scan failed: Command failed: scanimage: Error during device I/O'')"
  by (simp add: partialBatchEnv_def emptyWorld_def directSettings_def dirStat_def fileStat_def
        batchPre_def scanPage_def resolveDevice_def readClock_def duplexScan_def cleanupBatch_def
        isBatchFile_def string_defs fs_defs Let_def)

text \<open>
  C4. A single-sided capture that is rejected after five bytes went through the
  redirection fails and leaves the temporary file (the final path with \<^verbatim>\<open>.tmp\<close>) in
  the output directory: the clean-up removes a temporary file only if it is zero bytes
  long, as it does when the rejected capture wrote nothing. The duplex branch, given a
  capture that is rejected after five bytes of the first page, removes the partial file.
\<close>

theorem scanPage_leaves_nonempty_temp:
  "snd (scanPage ioErrorEnv (directSettings False) emptyWorld)
     = Inl ''Scan failed: Command failed: scanimage: Error during device I/O''
   \<and> map_of (fsys (fst (scanPage ioErrorEnv (directSettings False) emptyWorld))) tempPath
     = Some (fileStat 5 0)
   \<and> tempPath = ''/tmp/scan-2024-01-01T10-00-00-000Z.pdf'' @ ''.tmp''
   \<and> snd (scanPage emptyTempEnv (directSettings False) emptyWorld)
     = Inl ''Scan failed: Command failed: scanimage: Error during device I/O''
   \<and> fsys (fst (scanPage emptyTempEnv (directSettings False) emptyWorld)) = [(''/tmp'', dirStat)]
   \<and> snd (scanPage partialBatchEnv (directSettings True) emptyWorld)
     = Inl ''Duplex scan failed: Command failed: scanimage: Error during device I/O''
   \<and> fsys (fst (scanPage partialBatchEnv (directSettings True) emptyWorld)) = [(''/tmp'', dirStat)]"
proof -
  have "toISOString ioErrorEnv (clock ioErrorEnv (ticks emptyWorld)) = ''2024-01-01T10:00:00.000Z''"
    by (simp add: ioErrorEnv_def)
  then have io: "scanPage ioErrorEnv (directSettings False) emptyWorld
               = (emptyWorld\<lparr>fsys := [(''/tmp'', dirStat), (tempPath, fileStat 5 0)],
                             captures := 1, ticks := 1\<rparr>,
                  Inl ''Scan failed: Command failed: scanimage: Error during device I/O'')"
    by (simp only: scanPage_direct_single singleScan_ioError)
  have "toISOString emptyTempEnv (clock emptyTempEnv (ticks emptyWorld)) = ''2024-01-01T10:00:00.000Z''"
    by (simp add: emptyTempEnv_def)
  then have em: "scanPage emptyTempEnv (directSettings False) emptyWorld
               = (emptyWorld\<lparr>captures := 1, ticks := 1\<rparr>,
                  Inl ''Scan failed: Command failed: scanimage: Error during device I/O'')"
    by (simp only: scanPage_direct_single singleScan_emptyTemp)
  have t: "tempPath = ''/tmp/scan-2024-01-01T10-00-00-000Z.pdf'' @ ''.tmp''"
    by (simp add: tempPath_def)
  show ?thesis
    unfolding io em scanPage_partialBatch
    using t by (simp add: temp_not_tmp emptyWorld_def)
qed

text \<open>
  A scan whose capture writes a page of 1000 bytes: the temporary file is renamed to
  the final path.
\<close>

lemma scanPage_good:
  "snd (scanPage goodEnv (directSettings False) emptyWorld) = Inr [finalPath]
   \<and> scanSucceeded tempPath finalPath (fsys (fst (scanPage goodEnv (directSettings False) emptyWorld)))
         [finalPath]"
proof -
  have g: "toISOString goodEnv (clock goodEnv (ticks emptyWorld)) = ''2024-01-01T10:00:00.000Z''"
    by (simp add: goodEnv_def)
  show ?thesis
    unfolding scanPage_direct_single[OF g] singleScan_good
    by (simp add: scanSucceeded_def temp_not_tmp fileStat_def)
qed

section \<open>Scan executor: collecting a duplex batch\<close>



lemma roundToDouble_zero [simp]: "roundToDouble 0 = 0"
  by (simp add: roundToDouble_def)


lemma toNumber_exact: "\<bar>i\<bar> < 2 ^ 53 \<Longrightarrow> toNumber i = Finite i"
proof -
  assume b: "\<bar>i\<bar> < 2 ^ 53"
  then have "nat \<bar>i\<bar> < 2 ^ 53" by (simp add: nat_less_iff)
  then have r: "roundToDouble (nat \<bar>i\<bar>) = nat \<bar>i\<bar>" by (simp add: roundToDouble_def)
  have "(2::nat) ^ 53 \<le> 2 ^ 1024" by (rule power_increasing) simp_all
  with \<open>nat \<bar>i\<bar> < 2 ^ 53\<close> have "\<not> (2::nat) ^ 1024 \<le> nat \<bar>i\<bar>" by linarith
  then show ?thesis unfolding toNumber_def r Let_def by auto
qed





lemma child_name_path: "child_name dir p = Some n \<Longrightarrow> p = path_join dir n"
proof -
  assume a: "child_name dir p = Some n"
  define pre where "pre = dir @ ''/''"
  from a have "take (length pre) p = pre" and "n = drop (length pre) p"
    by (simp_all add: child_name_def Let_def pre_def split: if_splits)
  then have "p = pre @ n" by (metis append_take_drop_id)
  then show ?thesis by (simp add: path_join_def pre_def)
qed

lemma path_join_inj [simp]: "path_join dir a = path_join dir b \<longleftrightarrow> a = b"
  by (simp add: path_join_def)

lemma set_map_filter: "set (List.map_filter f xs) = {y. \<exists>x \<in> set xs. f x = Some y}"
  by (induction xs) (auto split: option.splits)

lemma distinct_map_filter_inj:
  assumes "distinct xs" and "\<And>x y n. f x = Some n \<Longrightarrow> f y = Some n \<Longrightarrow> x = y"
  shows "distinct (List.map_filter f xs)"
  using assms
proof (induction xs)
  case Nil
  then show ?case by simp
next
  case (Cons x xs)
  then have d: "distinct (List.map_filter f xs)" by simp
  show ?case
  proof (cases "f x")
    case None
    with d show ?thesis by simp
  next
    case (Some n)
    have "n \<notin> set (List.map_filter f xs)"
    proof
      assume "n \<in> set (List.map_filter f xs)"
      then obtain y where "y \<in> set xs" "f y = Some n" by (auto simp: set_map_filter)
      with Some Cons.prems(2) have "x = y" by blast
      with \<open>y \<in> set xs\<close> Cons.prems(1) show False by simp
    qed
    with d Some show ?thesis by simp
  qed
qed

lemma readdirSync_names:
  assumes "readdirSync dir fs = Inr names"
  shows "list_all (\<lambda>n. map_of fs (path_join dir n) \<noteq> None) names"
    and "distinct (map fst fs) \<Longrightarrow> distinct names"
proof -
  from assms have names: "names = List.map_filter (child_name dir) (map fst fs)"
    by (auto simp: readdirSync_def split: option.splits if_splits)
  show "list_all (\<lambda>n. map_of fs (path_join dir n) \<noteq> None) names"
    unfolding names list_all_iff
  proof
    fix n assume "n \<in> set (List.map_filter (child_name dir) (map fst fs))"
    then obtain p where "p \<in> set (map fst fs)" "child_name dir p = Some n"
      by (auto simp: set_map_filter)
    then have "path_join dir n \<in> fst ` set fs" using child_name_path by fastforce
    then show "map_of fs (path_join dir n) \<noteq> None" by (simp add: map_of_eq_None_iff)
  qed
  show "distinct names" if "distinct (map fst fs)"
    unfolding names using that
  proof (rule distinct_map_filter_inj)
    fix x y n assume "child_name dir x = Some n" "child_name dir y = Some n"
    then show "x = y" using child_name_path by blast
  qed
qed


text \<open>
  Outside these conditions the collection step behaves otherwise. An empty batch file
  that cannot be removed makes the loop throw, whatever the other files hold, and two
  page indices from \<open>2 ^ 53\<close> on can round to the same number, so that the comparator
  finds them equal.
\<close>

lemma collectLoop_immutable_empty:
  assumes "map_of fs (path_join dir n) = Some e" and "\<not> dangling e" and "st_size e = 0"
    and "immutable e"
  shows "collectLoop dir (n # ns) fs
         = (fs, Inl (fsError ''EPERM: operation not permitted'' ''unlink'' (path_join dir n)))"
  using assms by (simp add: statSync_def unlinkSync_def)

lemma round_tie_up: "toNumber 9999999999999999 = Finite 10000000000000000"
  by (simp add: toNumber_def roundToDouble_def bitLength.simps Let_def)

lemma round_tie_down: "toNumber 10000000000000001 = Finite 10000000000000000"
  by (simp add: toNumber_def roundToDouble_def bitLength.simps Let_def)

lemma batchCompare_rounded:
  "batchCompare ''p'' ''p9999999999999999.pdf'' ''p10000000000000001.pdf'' = 0"
  by (simp add: batchCompare_def batchIndex_def parseInt_def parseMathInt_def slice_def decDigit_def
        startsWith_def isWhiteSpace_def numberMinus_def compareValue_def round_tie_up round_tie_down
        toNumber_exact Let_def)







section \<open>Sessions: rebuilding from the directory\<close>

lemma freshPages_anonymous:
  "map anonymous (freshPages gen dir fs k ns) = map (filePage dir fs) (filter (\<lambda>f. 0 < fileSize dir fs f) ns)"
  by (induction ns arbitrary: k) (simp_all add: anonymous_def filePage_def)

lemma freshPages_cong:
  assumes "\<And>n. n \<in> set ns \<Longrightarrow> map_of fs1 (path_join dir n) = map_of fs (path_join dir n)"
  shows "freshPages gen dir fs1 k ns = freshPages gen dir fs k ns"
  using assms
  by (induction ns arbitrary: k) (simp_all add: fileSize_def fileMtime_def filePage_def)

lemma mapScanFiles_spec:
  assumes "distinct ns" and "list_all (readableEntry dir fs) ns"
  shows "\<exists>fs' entries.
           mapScanFiles gen dir ns fs k
             = (fs', k + length (filter (\<lambda>f. 0 < fileSize dir fs f) ns), Some entries)
           \<and> List.map_filter (\<lambda>f. f) entries = freshPages gen dir fs k ns
           \<and> (\<forall>p. map_of fs' p
                  = (if p \<in> set (map (path_join dir) (filter (\<lambda>f. fileSize dir fs f = 0 \<and> removableFile dir fs f) ns))
                     then None else map_of fs p))"
  using assms
proof (induction ns arbitrary: fs k)
  case Nil
  then show ?case by simp
next
  case (Cons n ns)
  from Cons.prems obtain st where st: "map_of fs (path_join dir n) = Some st" "\<not> dangling st"
    by (auto simp: readableEntry_def split: option.splits)
  have sz: "fileSize dir fs n = st_size st" and mt: "fileMtime dir fs n = mtime st"
    and rg: "removableFile dir fs n = (\<not> isDirectory st \<and> \<not> immutable st)"
    using st by (simp_all add: fileSize_def fileMtime_def removableFile_def)
  show ?case
  proof (cases "st_size st = 0")
    case False
    from Cons.prems have "distinct ns" "list_all (readableEntry dir fs) ns"
      by simp_all
    from Cons.IH[OF this, of "Suc k"] obtain fs' entries where
      ih: "mapScanFiles gen dir ns fs (Suc k)
             = (fs', Suc k + length (filter (\<lambda>f. 0 < fileSize dir fs f) ns), Some entries)"
        "List.map_filter (\<lambda>f. f) entries = freshPages gen dir fs (Suc k) ns"
        "\<forall>p. map_of fs' p
                  = (if p \<in> set (map (path_join dir) (filter (\<lambda>f. fileSize dir fs f = 0 \<and> removableFile dir fs f) ns))
                     then None else map_of fs p)"
      by blast
    show ?thesis
      using False st sz mt ih
      by (simp add: statSync_def filePage_def)
  next
    case True
    define fs1 where "fs1 = (case unlinkSync (path_join dir n) fs of Inl e \<Rightarrow> fs | Inr fs' \<Rightarrow> fs')"
    have fs1: "map_of fs1 p
                 = (if p = path_join dir n \<and> \<not> isDirectory st \<and> \<not> immutable st then None else map_of fs p)"
      for p
      using st by (auto simp: fs1_def unlinkSync_def)
    have same: "map_of fs1 (path_join dir m) = map_of fs (path_join dir m)" if "m \<in> set ns" for m
      using that Cons.prems(1) by (auto simp: fs1)
    have cong1: "filter (\<lambda>f. 0 < fileSize dir fs1 f) ns = filter (\<lambda>f. 0 < fileSize dir fs f) ns"
      and cong2: "filter (\<lambda>f. fileSize dir fs1 f = 0 \<and> removableFile dir fs1 f) ns
                = filter (\<lambda>f. fileSize dir fs f = 0 \<and> removableFile dir fs f) ns"
      using same by (auto simp: fileSize_def removableFile_def intro!: filter_cong)
    have "distinct ns" "list_all (readableEntry dir fs1) ns"
      using Cons.prems same by (simp_all add: list_all_iff readableEntry_def)
    from Cons.IH[OF this, of k] obtain fs' entries where
      ih: "mapScanFiles gen dir ns fs1 k
             = (fs', k + length (filter (\<lambda>f. 0 < fileSize dir fs1 f) ns), Some entries)"
        "List.map_filter (\<lambda>f. f) entries = freshPages gen dir fs1 k ns"
        "\<forall>p. map_of fs' p
                  = (if p \<in> set (map (path_join dir) (filter (\<lambda>f. fileSize dir fs1 f = 0 \<and> removableFile dir fs1 f) ns))
                     then None else map_of fs1 p)"
      by blast
    have fp: "freshPages gen dir fs1 k ns = freshPages gen dir fs k ns"
      using same by (rule freshPages_cong)
    show ?thesis
      using True st sz rg ih(1) ih(2) ih(3)
      by (auto simp: statSync_def fs1_def[symmetric] cong1 cong2 fp fs1)
  qed
qed

lemma map_insort_key:
  assumes "\<And>y. k (f y) = k y"
  shows "map f (insort_key k x xs) = insort_key k (f x) (map f xs)"
  by (induction xs) (simp_all add: assms)

lemma map_sort_key:
  assumes "\<And>y. k (f y) = k y"
  shows "map f (sort_key k xs) = sort_key k (map f xs)"
  by (induction xs) (simp_all add: map_insort_key[of k f, OF assms])

lemma anonymous_numberFrom: "map anonymous (numberFrom i ps) = numberFrom i (map anonymous ps)"
  by (induction ps arbitrary: i) (simp_all add: anonymous_def)

lemma length_numberFrom [simp]: "length (numberFrom i ps) = length ps"
  by (induction ps arbitrary: i) simp_all

lemma numberFrom_Nil_iff [simp]: "numberFrom i ps = [] \<longleftrightarrow> ps = []"
  by (cases ps) simp_all

lemma pageNumber_numberFrom: "map pageNumber (numberFrom i ps) = [Suc i ..< Suc i + length ps]"
proof (induction ps arbitrary: i)
  case Nil
  then show ?case by simp
next
  case (Cons p ps)
  have "[Suc i ..< Suc i + length (p # ps)] = Suc i # [Suc (Suc i) ..< Suc (Suc i) + length ps]"
    using upt_conv_Cons[of "Suc i" "Suc i + length (p # ps)"] by simp
  with Cons show ?case by simp
qed

lemma timestamp_numberFrom: "map timestamp (numberFrom i ps) = map timestamp ps"
  by (induction ps arbitrary: i) simp_all

lemma page_id_numberFrom: "map page_id (numberFrom i ps) = map page_id ps"
  by (induction ps arbitrary: i) simp_all

lemma nth_append_range: "map ((!) (xs @ ys)) [length xs ..< length xs + length ys] = ys"
  by (rule nth_equalityI) (simp_all add: nth_append)

lemma freshPages_ids:
  "map page_id (freshPages gen dir fs k ns)
     = map gen [k ..< k + length (filter (\<lambda>f. 0 < fileSize dir fs f) ns)]"
proof (induction ns arbitrary: k)
  case Nil
  then show ?case by simp
next
  case (Cons n ns)
  show ?case
  proof (cases "0 < fileSize dir fs n")
    case True
    have "[k ..< k + length (filter (\<lambda>f. 0 < fileSize dir fs f) (n # ns))]
            = k # [Suc k ..< Suc k + length (filter (\<lambda>f. 0 < fileSize dir fs f) ns)]"
      using True upt_conv_Cons[of k "k + length (filter (\<lambda>f. 0 < fileSize dir fs f) (n # ns))"]
      by simp
    then show ?thesis
      using True Cons.IH[of "Suc k"] by (simp add: filePage_def)
  next
    case False
    then show ?thesis using Cons.IH[of k] by simp
  qed
qed

lemma loadSessions_spec:
  assumes listing: "readdirSync (scanOutputDir settings) fs = Inr names"
    and paths: "distinct (map fst fs)"
    and readable: "scanEntriesReadable (scanOutputDir settings) fs names"
  shows "\<exists>fs' ps.
           map anonymous ps = expectedPages (scanOutputDir settings) fs names
           \<and> set (map page_id ps) = gen ` {idCalls m ..< idCalls m + length ps}
           \<and> loadSessions gen settings (fs, m)
               = (fs',
                  if ps = [] then m
                  else m\<lparr>sessions := AList.update ''default''
                                \<lparr>session_id = ''default'', session_name = ''Current Document'',
                                 pages = [length (heap m) ..< length (heap m) + length ps],
                                 created = timestamp (hd ps), modified = timestamp (last ps)\<rparr>
                                (sessions m),
                          heap := heap m @ ps,
                          idCalls := idCalls m + length ps\<rparr>)"
proof -
  define dir where "dir = scanOutputDir settings"
  define scan where "scan = filter isScanFile names"
  have ex: "existsSync dir fs"
    using listing by (auto simp: readdirSync_def existsSync_def dir_def split: option.splits)
  have "distinct names" using listing paths by (rule readdirSync_names(2))
  then have d: "distinct scan" by (simp add: scan_def)
  have e: "list_all (readableEntry dir fs) scan"
    using readable by (simp add: scan_def dir_def scanEntriesReadable_def)
  from mapScanFiles_spec[OF d e, of gen "idCalls m"] obtain fs' entries where
    ms: "mapScanFiles gen dir scan fs (idCalls m)
           = (fs', idCalls m + length (filter (\<lambda>f. 0 < fileSize dir fs f) scan), Some entries)"
      "List.map_filter (\<lambda>f. f) entries = freshPages gen dir fs (idCalls m) scan"
    by blast
  define filtered where "filtered = sort_key timestamp (freshPages gen dir fs (idCalls m) scan)"
  define ps where "ps = numberFrom 0 filtered"
  have an: "map anonymous (freshPages gen dir fs (idCalls m) scan)
              = map (filePage dir fs) (scanFilesIn dir fs names)"
    by (simp add: freshPages_anonymous scan_def scanFilesIn_def conj_commute)
  have "map anonymous filtered = sort_key timestamp (map anonymous (freshPages gen dir fs (idCalls m) scan))"
    unfolding filtered_def by (rule map_sort_key) (simp add: anonymous_def)
  then have exp: "map anonymous ps = expectedPages dir fs names"
    by (simp add: ps_def anonymous_numberFrom an expectedPages_def)
  have len: "length ps = length (filter (\<lambda>f. 0 < fileSize dir fs f) scan)"
    using arg_cong[OF an, of length]
    by (simp add: ps_def filtered_def scan_def scanFilesIn_def conj_commute)
  have "set (map page_id ps) = set (map page_id (freshPages gen dir fs (idCalls m) scan))"
    by (simp add: ps_def page_id_numberFrom filtered_def)
  then have ids: "set (map page_id ps) = gen ` {idCalls m ..< idCalls m + length ps}"
    using arg_cong[OF freshPages_ids[of gen dir fs "idCalls m" scan], of set] by (simp add: len)
  have ts: "timestamp (hd ps) = timestamp (hd filtered)" "timestamp (last ps) = timestamp (last filtered)"
    if "filtered \<noteq> []"
  proof -
    have "hd (map timestamp ps) = hd (map timestamp filtered)"
      "last (map timestamp ps) = last (map timestamp filtered)"
      by (simp_all add: ps_def timestamp_numberFrom)
    moreover have "ps \<noteq> []" using that by (simp add: ps_def)
    ultimately show "timestamp (hd ps) = timestamp (hd filtered)"
      "timestamp (last ps) = timestamp (last filtered)"
      using that by (simp_all add: hd_map last_map)
  qed
  have "loadSessions gen settings (fs, m)
          = (fs',
             if ps = [] then m
             else m\<lparr>sessions := AList.update ''default''
                           \<lparr>session_id = ''default'', session_name = ''Current Document'',
                            pages = [length (heap m) ..< length (heap m) + length ps],
                            created = timestamp (hd ps), modified = timestamp (last ps)\<rparr>
                           (sessions m),
                     heap := heap m @ ps,
                     idCalls := idCalls m + length ps\<rparr>)"
  proof (cases "filtered = []")
    case True
    then have "length (filter (\<lambda>f. 0 < fileSize dir fs f) scan) = 0"
      using len by (simp add: ps_def)
    then show ?thesis
      using True ex listing ms
      by (simp add: loadSessions_def dir_def[symmetric] scan_def[symmetric] filtered_def[symmetric]
            ps_def Let_def)
  next
    case False
    then have "ps \<noteq> []" by (simp add: ps_def)
    then show ?thesis
      using False ex listing ms ts[OF False] len
      by (simp add: loadSessions_def dir_def[symmetric] scan_def[symmetric] filtered_def[symmetric]
            ps_def[symmetric] Let_def)
  qed
  with exp ids show ?thesis
    unfolding dir_def by blast
qed

lemma expectedPages_facts:
  "map pageNumber (expectedPages dir fs names) = [1 ..< Suc (length (scanFilesIn dir fs names))]"
  "sorted (map timestamp (expectedPages dir fs names))"
  "set (map filename (expectedPages dir fs names)) = set (scanFilesIn dir fs names)"
  "length (expectedPages dir fs names) = length (scanFilesIn dir fs names)"
proof -
  have fn: "map filename (numberFrom i ps) = map filename ps" for i ps
    by (induction ps arbitrary: i) simp_all
  show "map pageNumber (expectedPages dir fs names) = [1 ..< Suc (length (scanFilesIn dir fs names))]"
    by (simp add: expectedPages_def pageNumber_numberFrom)
  show "sorted (map timestamp (expectedPages dir fs names))"
    by (simp add: expectedPages_def timestamp_numberFrom)
  have "set (map filename (sort_key timestamp (map (filePage dir fs) (scanFilesIn dir fs names))))
          = filename ` filePage dir fs ` set (scanFilesIn dir fs names)"
    by simp
  also have "\<dots> = set (scanFilesIn dir fs names)"
    by (auto simp: filePage_def image_iff)
  finally show "set (map filename (expectedPages dir fs names)) = set (scanFilesIn dir fs names)"
    by (simp add: expectedPages_def fn)
  show "length (expectedPages dir fs names) = length (scanFilesIn dir fs names)"
    by (simp add: expectedPages_def)
qed

lemma anonymous_fields [simp]:
  "pageNumber (anonymous p) = pageNumber p" "timestamp (anonymous p) = timestamp p"
  "filename (anonymous p) = filename p" "filepath (anonymous p) = filepath p"
  "page_size (anonymous p) = page_size p"
  by (simp_all add: anonymous_def)

text \<open>
  Where the rebuild does happen: the scan directory can be listed, no path occurs twice
  and \<^verbatim>\<open>statSync\<close> succeeds on every entry with a scan file's name. If the directory
  holds at least one scan file with content, \<^verbatim>\<open>getSession('default')\<close> returns,
  whatever the manager held before, a session whose pages are exactly those files, sorted
  by modification time (files with equal times in listing order) and numbered 1, 2, ...;
  \<^verbatim>\<open>getSessions()\<close> returns that session too. If it holds no such file, and for every
  session id other than \<^verbatim>\<open>default\<close>, the session kept in memory is returned as it is.
\<close>

lemma getSession_default_rebuilt:
  assumes listing: "readdirSync (scanOutputDir settings) fs = Inr names"
    and paths: "distinct (map fst fs)"
    and readable: "scanEntriesReadable (scanOutputDir settings) fs names"
  shows "(scanFilesIn (scanOutputDir settings) fs names \<noteq> [] \<longrightarrow>
            (\<exists>s. snd (getSession gen settings ''default'' (fs, m)) = Some s
               \<and> s \<in> set (snd (getSessions gen settings (fs, m)))
               \<and> map anonymous (pageList (snd (fst (getSession gen settings ''default'' (fs, m)))) s)
                   = expectedPages (scanOutputDir settings) fs names
               \<and> map pageNumber (pageList (snd (fst (getSession gen settings ''default'' (fs, m)))) s)
                   = [1 ..< Suc (length (scanFilesIn (scanOutputDir settings) fs names))]
               \<and> sorted (map timestamp (pageList (snd (fst (getSession gen settings ''default'' (fs, m)))) s))
               \<and> set (map filename (pageList (snd (fst (getSession gen settings ''default'' (fs, m)))) s))
                   = set (scanFilesIn (scanOutputDir settings) fs names)))
       \<and> (scanFilesIn (scanOutputDir settings) fs names = [] \<longrightarrow>
            snd (fst (getSession gen settings sessionId (fs, m))) = m
            \<and> snd (getSession gen settings sessionId (fs, m)) = map_of (sessions m) sessionId)
       \<and> (sessionId \<noteq> ''default'' \<longrightarrow>
            snd (getSession gen settings sessionId (fs, m)) = map_of (sessions m) sessionId)"
proof -
  from loadSessions_spec[OF listing paths readable, of gen m] obtain fs' ps where
    exp: "map anonymous ps = expectedPages (scanOutputDir settings) fs names"
    and load: "loadSessions gen settings (fs, m)
               = (fs',
                  if ps = [] then m
                  else m\<lparr>sessions := AList.update ''default''
                                \<lparr>session_id = ''default'', session_name = ''Current Document'',
                                 pages = [length (heap m) ..< length (heap m) + length ps],
                                 created = timestamp (hd ps), modified = timestamp (last ps)\<rparr>
                                (sessions m),
                          heap := heap m @ ps,
                          idCalls := idCalls m + length ps\<rparr>)"
    by blast
  define dir where "dir = scanOutputDir settings"
  have len: "length ps = length (scanFilesIn dir fs names)"
    using arg_cong[OF exp, of length] by (simp add: expectedPages_facts dir_def)
  have pn: "map pageNumber ps = map pageNumber (expectedPages dir fs names)"
    and ts: "map timestamp ps = map timestamp (expectedPages dir fs names)"
    and fn: "map filename ps = map filename (expectedPages dir fs names)"
    using arg_cong[OF exp, of "map pageNumber"] arg_cong[OF exp, of "map timestamp"]
      arg_cong[OF exp, of "map filename"]
    by (simp_all add: dir_def comp_def)
  have empty: "ps = [] \<longleftrightarrow> scanFilesIn dir fs names = []"
    using len by auto
  define s where "s = \<lparr>session_id = ''default'', session_name = ''Current Document'',
                       pages = [length (heap m) ..< length (heap m) + length ps],
                       created = timestamp (hd ps), modified = timestamp (last ps)\<rparr>"
  have rebuilt: "snd (getSession gen settings ''default'' (fs, m)) = Some s
      \<and> s \<in> set (snd (getSessions gen settings (fs, m)))
      \<and> pageList (snd (fst (getSession gen settings ''default'' (fs, m)))) s = ps"
    if "ps \<noteq> []"
  proof -
    have "map_of (AList.update ''default'' s (sessions m)) ''default'' = Some s"
      by (simp add: update_conv')
    then have "(''default'', s) \<in> set (AList.update ''default'' s (sessions m))"
      by (rule map_of_SomeD)
    then have "s \<in> snd ` set (AList.update ''default'' s (sessions m))"
      by force
    moreover have "map ((!) (heap m @ ps)) (pages s) = ps"
      by (simp add: s_def nth_append_range)
    ultimately show ?thesis
      using that load
      by (simp add: getSession_def getSessions_def s_def[symmetric] update_conv' pageList_def)
  qed
  have a: "scanFilesIn dir fs names \<noteq> [] \<longrightarrow>
            (\<exists>s. snd (getSession gen settings ''default'' (fs, m)) = Some s
               \<and> s \<in> set (snd (getSessions gen settings (fs, m)))
               \<and> map anonymous (pageList (snd (fst (getSession gen settings ''default'' (fs, m)))) s)
                   = expectedPages dir fs names
               \<and> map pageNumber (pageList (snd (fst (getSession gen settings ''default'' (fs, m)))) s)
                   = [1 ..< Suc (length (scanFilesIn dir fs names))]
               \<and> sorted (map timestamp (pageList (snd (fst (getSession gen settings ''default'' (fs, m)))) s))
               \<and> set (map filename (pageList (snd (fst (getSession gen settings ''default'' (fs, m)))) s))
                   = set (scanFilesIn dir fs names))"
  proof
    assume "scanFilesIn dir fs names \<noteq> []"
    then have "ps \<noteq> []" using empty by simp
    from rebuilt[OF this] show "\<exists>s. snd (getSession gen settings ''default'' (fs, m)) = Some s
               \<and> s \<in> set (snd (getSessions gen settings (fs, m)))
               \<and> map anonymous (pageList (snd (fst (getSession gen settings ''default'' (fs, m)))) s)
                   = expectedPages dir fs names
               \<and> map pageNumber (pageList (snd (fst (getSession gen settings ''default'' (fs, m)))) s)
                   = [1 ..< Suc (length (scanFilesIn dir fs names))]
               \<and> sorted (map timestamp (pageList (snd (fst (getSession gen settings ''default'' (fs, m)))) s))
               \<and> set (map filename (pageList (snd (fst (getSession gen settings ''default'' (fs, m)))) s))
                   = set (scanFilesIn dir fs names)"
      using exp pn ts fn expectedPages_facts[of dir fs names]
      by (intro exI[of _ s]) (simp add: dir_def)
  qed
  have b: "scanFilesIn dir fs names = [] \<longrightarrow>
            snd (fst (getSession gen settings sessionId (fs, m))) = m
            \<and> snd (getSession gen settings sessionId (fs, m)) = map_of (sessions m) sessionId"
    using load empty by (simp add: getSession_def)
  have c: "sessionId \<noteq> ''default'' \<longrightarrow>
            snd (getSession gen settings sessionId (fs, m)) = map_of (sessions m) sessionId"
    using load by (simp add: getSession_def update_conv')
  from a b c show ?thesis unfolding dir_def by blast
qed

lemma threeFiles_listing:
  "readdirSync (scanOutputDir tmpSettings) threeFilesFs = Inr [''scan-b.pdf'', ''scan-a.pdf'', ''scan-c.pdf'']"
  by (simp add: tmpSettings_def threeFilesFs_def dirStat_def fs_defs)

lemma threeFiles_scan:
  "scanFilesIn ''/tmp'' threeFilesFs [''scan-b.pdf'', ''scan-a.pdf'', ''scan-c.pdf'']
     = [''scan-b.pdf'', ''scan-a.pdf'']"
  by (simp add: scanFilesIn_def isScanFile_def validExtensions_def startsWith_def endsWith_def
        fileSize_def threeFilesFs_def path_join_def fileStat_def)

lemma threeFiles_readable:
  "scanEntriesReadable (scanOutputDir tmpSettings) threeFilesFs [''scan-b.pdf'', ''scan-a.pdf'', ''scan-c.pdf'']"
  by (simp add: scanEntriesReadable_def readableEntry_def isScanFile_def validExtensions_def
        startsWith_def endsWith_def tmpSettings_def threeFilesFs_def path_join_def fileStat_def)

lemma threeFiles_expected:
  "expectedPages ''/tmp'' threeFilesFs [''scan-b.pdf'', ''scan-a.pdf'', ''scan-c.pdf'']
     = [\<lparr>page_id = [], filename = ''scan-a.pdf'', filepath = ''/tmp/scan-a.pdf'', timestamp = 100,
         page_size = 10, pageNumber = 1\<rparr>,
        \<lparr>page_id = [], filename = ''scan-b.pdf'', filepath = ''/tmp/scan-b.pdf'', timestamp = 300,
         page_size = 20, pageNumber = 2\<rparr>]"
  unfolding expectedPages_def threeFiles_scan
  by (simp add: filePage_def fileSize_def fileMtime_def threeFilesFs_def path_join_def fileStat_def)

text \<open>
  At a directory of three files, read by a manager that still holds the session of an
  earlier read: the empty file is left out and the older file comes first.
\<close>

lemma getSession_threeFiles:
  "\<exists>s. snd (getSession gen tmpSettings ''default'' (threeFilesFs, snd (staleWorld gen))) = Some s
       \<and> map anonymous
            (pageList (snd (fst (getSession gen tmpSettings ''default''
                                   (threeFilesFs, snd (staleWorld gen))))) s)
          = [\<lparr>page_id = [], filename = ''scan-a.pdf'', filepath = ''/tmp/scan-a.pdf'', timestamp = 100,
              page_size = 10, pageNumber = 1\<rparr>,
             \<lparr>page_id = [], filename = ''scan-b.pdf'', filepath = ''/tmp/scan-b.pdf'', timestamp = 300,
              page_size = 20, pageNumber = 2\<rparr>]"
proof -
  have d: "distinct (map fst threeFilesFs)" by (simp add: threeFilesFs_def)
  have dir: "scanOutputDir tmpSettings = ''/tmp''" by (simp add: tmpSettings_def)
  from getSession_default_rebuilt[OF threeFiles_listing d threeFiles_readable,
         of gen "snd (staleWorld gen)" "''default''"]
  have "\<exists>s. snd (getSession gen tmpSettings ''default'' (threeFilesFs, snd (staleWorld gen))) = Some s
          \<and> map anonymous
               (pageList (snd (fst (getSession gen tmpSettings ''default''
                                      (threeFilesFs, snd (staleWorld gen))))) s)
             = expectedPages ''/tmp'' threeFilesFs [''scan-b.pdf'', ''scan-a.pdf'', ''scan-c.pdf'']"
    unfolding dir threeFiles_scan by blast
  then show ?thesis
    unfolding threeFiles_expected by blast
qed

text \<open>
  An entry with a scan file's name on which \<^verbatim>\<open>statSync\<close> throws (a symbolic link
  whose target is gone) ends the load in the \<^verbatim>\<open>catch\<close> block: nothing is rebuilt,
  although the directory holds a scan file with content.
\<close>

lemma loadSessions_unreadable_entry:
  "snd (getSession gen tmpSettings ''default'' (brokenLinkFs, emptyManager)) = None
   \<and> snd (fst (getSession gen tmpSettings ''default'' (brokenLinkFs, emptyManager)))
       = emptyManager\<lparr>idCalls := 1\<rparr>"
  by (simp add: getSession_def loadSessions_def tmpSettings_def brokenLinkFs_def emptyManager_def
        dirStat_def fileStat_def isScanFile_def validExtensions_def string_defs fs_defs Let_def)

text \<open>
  C2. The default session was read while \<^verbatim>\<open>/tmp/scan-a.pdf\<close> existed. The file has
  been removed since and the directory holds no entry. \<^verbatim>\<open>getSession('default')\<close>
  and \<^verbatim>\<open>getSessions()\<close> still return the session with the page of that file: the
  page list is not the (empty) list of scan files of the directory.
\<close>

theorem getSession_returns_stale_default:
  "readdirSync ''/tmp'' (fst (staleWorld gen)) = Inr []
   \<and> \<not> existsSync ''/tmp/scan-a.pdf'' (fst (staleWorld gen))
   \<and> map_option
        (\<lambda>s. map filename (pageList (snd (fst (getSession gen tmpSettings ''default'' (staleWorld gen)))) s))
        (snd (getSession gen tmpSettings ''default'' (staleWorld gen)))
       = Some [''scan-a.pdf'']
   \<and> map (\<lambda>s. map filename (pageList (snd (fst (getSessions gen tmpSettings (staleWorld gen)))) s))
        (snd (getSessions gen tmpSettings (staleWorld gen)))
       = [[''scan-a.pdf'']]"
proof -
  have dir: "scanOutputDir tmpSettings = ''/tmp''" by (simp add: tmpSettings_def)
  have "readdirSync ''/tmp'' (fst (staleWorld gen)) = Inr []"
    "\<not> existsSync ''/tmp/scan-a.pdf'' (fst (staleWorld gen))"
    by (simp_all add: staleWorld_eq dirStat_def fs_defs)
  moreover have "getSession gen tmpSettings ''default'' (staleWorld gen)
      = (staleWorld gen, map_of (sessions (snd (staleWorld gen))) ''default'')"
    unfolding staleWorld_eq getSession_stale[OF dir] by simp
  moreover have "loadSessions gen tmpSettings (staleWorld gen) = staleWorld gen"
    unfolding staleWorld_eq by (simp add: loadSessions_def tmpSettings_def dirStat_def fs_defs Let_def)
  ultimately show ?thesis
    by (simp add: getSessions_def) (simp add: staleWorld_eq pageList_def pageA_def)
qed

section \<open>Sessions: page ids across reads\<close>

lemma sampleIds_values:
  "sampleIds 0 = ''rs5''" "sampleIds 1 = ''rt5''" "sampleIds (Suc 0) = ''rt5''"
  "sampleIds (Suc (Suc 0)) = ''ru5''"
  "sampleIds 2 = ''ru5''" "sampleIds 3 = ''rv5''"
  "sampleIds 4 = ''rw5''" "sampleIds 5 = ''rx5''" "sampleIds 6 = ''ry5''" "sampleIds 7 = ''rz5''"
  by (simp_all add: sampleIds_def generatedIds_def generateId_def toString36.simps digit36_def)

text \<open>
  \<^verbatim>\<open>generateId\<close> does not compare its result with the ids given out before, and two
  different pairs of readings can give the same id.
\<close>

lemma generateId_can_repeat: "generateId 36 ''0.1'' = generateId 1 ''0.01''"
  by (simp add: generateId_def toString36.simps digit36_def)

text \<open>
  Two clock readings that differ and have the same number of digits in base 36 (as all
  readings between the years 1972 and 2059 have: eight digits) give different ids.
\<close>

lemma digit36_inj:
  assumes "a < 36" and "b < 36" and "digit36 a = digit36 b"
  shows "a = b"
proof -
  have d: "distinct ''0123456789abcdefghijklmnopqrstuvwxyz''" by simp
  have l: "length ''0123456789abcdefghijklmnopqrstuvwxyz'' = 36" by simp
  from assms show ?thesis
    unfolding digit36_def using nth_eq_iff_index_eq[OF d, of a b] l by simp
qed

lemma toString36_length: "0 < length (toString36 n)"
  by (induction n rule: toString36.induct) (simp add: toString36.simps)

lemma toString36_single: "length (toString36 n) = Suc 0 \<longleftrightarrow> n < 36"
  using toString36_length[of "n div 36"]
  by (subst toString36.simps) auto

lemma toString36_inj: "toString36 a = toString36 b \<Longrightarrow> a = b"
proof (induction a arbitrary: b rule: toString36.induct)
  case (1 n)
  show ?case
  proof (cases "n < 36")
    case True
    then have "length (toString36 n) = Suc 0" by (simp add: toString36_single)
    with 1(2) have b: "b < 36" by (simp add: toString36_single)
    with True 1(2) have "digit36 n = digit36 b"
      by (simp add: toString36.simps[of n] toString36.simps[of b])
    with True b show ?thesis by (rule digit36_inj)
  next
    case False
    then have "length (toString36 n) \<noteq> Suc 0" by (simp add: toString36_single)
    with 1(2) have b: "\<not> b < 36" by (simp add: toString36_single)
    with False 1(2) have "toString36 (n div 36) = toString36 (b div 36)"
      and dg: "digit36 (n mod 36) = digit36 (b mod 36)"
      by (simp_all add: toString36.simps[of n] toString36.simps[of b])
    with False 1(1) have "n div 36 = b div 36" by simp
    moreover from dg have "n mod 36 = b mod 36" by (intro digit36_inj) simp_all
    ultimately show ?thesis by (metis div_mult_mod_eq)
  qed
qed

lemma generateId_clock_moved:
  assumes "length (toString36 (nat a)) = length (toString36 (nat b))" and "nat a \<noteq> nat b"
  shows "generateId a r \<noteq> generateId b r'"
proof
  assume "generateId a r = generateId b r'"
  then have "toString36 (nat a) @ drop 2 r = toString36 (nat b) @ drop 2 r'"
    by (simp add: generateId_def)
  with assms(1) have "toString36 (nat a) = toString36 (nat b)" by simp
  then have "nat a = nat b" by (rule toString36_inj)
  with assms(2) show False by simp
qed

lemma toString36_digits:
  "36 ^ k \<le> n \<Longrightarrow> n < 36 ^ Suc k \<Longrightarrow> length (toString36 n) = Suc k"
proof (induction k arbitrary: n)
  case 0
  then show ?case by (simp add: toString36_single)
next
  case (Suc k)
  have "(1::nat) \<le> 36 ^ k" by simp
  then have "(36::nat) \<le> 36 ^ Suc k" by simp
  with Suc.prems(1) have ge: "\<not> n < 36" by linarith
  have "36 ^ k \<le> n div 36"
    using Suc.prems(1) by (simp add: less_eq_div_iff_mult_less_eq mult.commute)
  moreover have "n div 36 < 36 ^ Suc k"
    using Suc.prems(2) by (simp add: div_less_iff_less_mult mult.commute)
  ultimately have "length (toString36 (n div 36)) = Suc k" by (rule Suc.IH)
  then show ?case using ge by (simp add: toString36.simps[of n])
qed

lemma find_by_page_none:
  assumes "pid \<notin> set (map f (pageList m s))"
  shows "List.find (\<lambda>r. f (heap m ! r) = pid) (pages s) = None"
    and "findIndex (\<lambda>r. f (heap m ! r) = pid) (pages s) = None"
proof -
  have none: "\<forall>r \<in> set (pages s). f (heap m ! r) \<noteq> pid"
    using assms by (auto simp: pageList_def)
  then show "List.find (\<lambda>r. f (heap m ! r) = pid) (pages s) = None"
    by (simp add: find_None_iff)
  have "findIndex P xs = None" if "\<forall>x \<in> set xs. \<not> P x" for P :: "nat \<Rightarrow> bool" and xs
    using that by (induction xs) simp_all
  with none show "findIndex (\<lambda>r. f (heap m ! r) = pid) (pages s) = None"
    by simp
qed

lemma getSession_default_fresh:
  assumes listing: "readdirSync (scanOutputDir settings) fs = Inr names"
    and paths: "distinct (map fst fs)"
    and readable: "scanEntriesReadable (scanOutputDir settings) fs names"
    and nonempty: "scanFilesIn (scanOutputDir settings) fs names \<noteq> []"
  shows "\<exists>fs' m' s.
           getSession gen settings ''default'' (fs, m) = ((fs', m'), Some s)
           \<and> heap m' = heap m @ pageList m' s
           \<and> idCalls m' = idCalls m + length (pageList m' s)
           \<and> length (pageList m' s) = length (scanFilesIn (scanOutputDir settings) fs names)
           \<and> set (map page_id (pageList m' s)) = gen ` {idCalls m ..< idCalls m'}"
proof -
  from loadSessions_spec[OF listing paths readable, of gen m] obtain fs' ps where
    exp: "map anonymous ps = expectedPages (scanOutputDir settings) fs names"
    and ids: "set (map page_id ps) = gen ` {idCalls m ..< idCalls m + length ps}"
    and load: "loadSessions gen settings (fs, m)
               = (fs',
                  if ps = [] then m
                  else m\<lparr>sessions := AList.update ''default''
                                \<lparr>session_id = ''default'', session_name = ''Current Document'',
                                 pages = [length (heap m) ..< length (heap m) + length ps],
                                 created = timestamp (hd ps), modified = timestamp (last ps)\<rparr>
                                (sessions m),
                          heap := heap m @ ps,
                          idCalls := idCalls m + length ps\<rparr>)"
    by blast
  have len: "length ps = length (scanFilesIn (scanOutputDir settings) fs names)"
    using arg_cong[OF exp, of length] by (simp add: expectedPages_facts)
  with nonempty have ne: "ps \<noteq> []" by auto
  define s where "s = \<lparr>session_id = ''default'', session_name = ''Current Document'',
                       pages = [length (heap m) ..< length (heap m) + length ps],
                       created = timestamp (hd ps), modified = timestamp (last ps)\<rparr>"
  define m' where "m' = m\<lparr>sessions := AList.update ''default'' s (sessions m),
                          heap := heap m @ ps, idCalls := idCalls m + length ps\<rparr>"
  have pl: "pageList m' s = ps"
    by (simp add: pageList_def m'_def s_def nth_append_range)
  have "getSession gen settings ''default'' (fs, m) = ((fs', m'), Some s)"
    using load ne by (simp add: getSession_def s_def[symmetric] m'_def update_conv')
  moreover have "heap m' = heap m @ pageList m' s" "idCalls m' = idCalls m + length (pageList m' s)"
    unfolding pl by (simp_all add: m'_def)
  moreover have "set (map page_id (pageList m' s)) = gen ` {idCalls m ..< idCalls m'}"
    unfolding pl using ids by (simp add: m'_def)
  moreover have "length (pageList m' s) = length (scanFilesIn (scanOutputDir settings) fs names)"
    unfolding pl by (rule len)
  ultimately show ?thesis by blast
qed

lemma reorderPages_old_id_after_clock_moved:
  assumes listing: "readdirSync (scanOutputDir settings) fs = Inr names"
    and paths: "distinct (map fst fs)"
    and readable: "scanEntriesReadable (scanOutputDir settings) fs names"
    and nonempty: "scanFilesIn (scanOutputDir settings) fs names \<noteq> []"
    and old: "pageId = generateId t0 r0"
    and moved: "\<And>k. idCalls m \<le> k \<Longrightarrow>
                  nat (dateNow k) \<noteq> nat t0
                  \<and> length (toString36 (nat (dateNow k))) = length (toString36 (nat t0))"
  shows "snd (reorderPages (generatedIds dateNow mathRandom) settings ''default'' (pageId # rest) now (fs, m))
         = Inl (''Page '' @ pageId @ '' not found'')"
proof -
  from getSession_default_fresh[OF listing paths readable nonempty, of "generatedIds dateNow mathRandom" m]
  obtain fs' m' s where
    get: "getSession (generatedIds dateNow mathRandom) settings ''default'' (fs, m) = ((fs', m'), Some s)"
    and ids: "set (map page_id (pageList m' s)) = generatedIds dateNow mathRandom ` {idCalls m ..< idCalls m'}"
    by blast
  have "pageId \<notin> set (map page_id (pageList m' s))"
  proof
    assume "pageId \<in> set (map page_id (pageList m' s))"
    with ids obtain k where k: "idCalls m \<le> k" "pageId = generatedIds dateNow mathRandom k"
      by auto
    from moved[OF k(1)] have "generateId (dateNow k) (mathRandom k) \<noteq> generateId t0 r0"
      by (intro generateId_clock_moved) simp_all
    with k(2) old show False by (simp add: generatedIds_def)
  qed
  from find_by_page_none(1)[OF this] get show ?thesis
    by (simp add: reorderPages_def)
qed



lemma read_onePage:
  "getSession gen tmpSettings ''default'' (onePageFs, m)
     = ((onePageFs,
         m\<lparr>sessions := AList.update ''default''
               \<lparr>session_id = ''default'', session_name = ''Current Document'',
                pages = [length (heap m)], created = 100, modified = 100\<rparr> (sessions m),
           heap := heap m @ [pageA (gen (idCalls m)) 1],
           idCalls := Suc (idCalls m)\<rparr>),
        Some \<lparr>session_id = ''default'', session_name = ''Current Document'',
              pages = [length (heap m)], created = 100, modified = 100\<rparr>)"
  by (simp add: getSession_def load_onePage update_conv')





section \<open>Sessions: a reorder with an unknown id\<close>

lemma find_page_Some:
  assumes "List.find (\<lambda>r. page_id (h ! r) = pid) ps = Some r"
  shows "pid \<in> set (map (\<lambda>r. page_id (h ! r)) ps)"
  using assms by (auto simp: find_Some_iff image_iff)

lemma collectPages_unknown:
  assumes "list_ex (\<lambda>pid. pid \<notin> set (map (\<lambda>r. page_id (h ! r)) ps)) ids"
  shows "\<exists>pid. collectPages h ps ids = Inl pid \<and> pid \<in> set ids
               \<and> pid \<notin> set (map (\<lambda>r. page_id (h ! r)) ps)"
  using assms
proof (induction ids)
  case Nil
  then show ?case by simp
next
  case (Cons pid rest)
  show ?case
  proof (cases "List.find (\<lambda>r. page_id (h ! r) = pid) ps")
    case None
    then have "pid \<notin> set (map (\<lambda>r. page_id (h ! r)) ps)"
      by (auto simp: find_None_iff)
    with None show ?thesis by auto
  next
    case (Some r)
    then have "pid \<in> set (map (\<lambda>r. page_id (h ! r)) ps)" by (rule find_page_Some)
    with Cons.prems have "list_ex (\<lambda>pid. pid \<notin> set (map (\<lambda>r. page_id (h ! r)) ps)) rest"
      by auto
    from Cons.IH[OF this] obtain q where
      "collectPages h ps rest = Inl q" "q \<in> set rest" "q \<notin> set (map (\<lambda>r. page_id (h ! r)) ps)"
      by blast
    with Some show ?thesis by auto
  qed
qed

lemma reorderPages_fails_after_read:
  assumes session: "getSession gen settings sessionId w = (w', Some session)"
    and unknown: "list_ex (\<lambda>pageId. pageId \<notin> set (map page_id (pageList (snd w') session))) pageIds"
  shows "\<exists>pageId.
           reorderPages gen settings sessionId pageIds now w
             = (w', Inl (''Page '' @ pageId @ '' not found''))
           \<and> pageId \<in> set pageIds
           \<and> pageId \<notin> set (map page_id (pageList (snd w') session))"
proof -
  obtain fs' m' where w': "w' = (fs', m')" by (cases w')
  have "list_ex (\<lambda>pid. pid \<notin> set (map (\<lambda>r. page_id (heap m' ! r)) (pages session))) pageIds"
    using unknown by (simp add: pageList_def w' comp_def)
  from collectPages_unknown[OF this] obtain pid where
    pid: "collectPages (heap m') (pages session) pageIds = Inl pid" "pid \<in> set pageIds"
      "pid \<notin> set (map (\<lambda>r. page_id (heap m' ! r)) (pages session))"
    by blast
  have "reorderPages gen settings sessionId pageIds now w = (w', Inl (''Page '' @ pid @ '' not found''))"
    using session pid(1) by (simp add: reorderPages_def w')
  with pid(2,3) show ?thesis
    by (intro exI[of _ pid]) (simp add: pageList_def w' comp_def)
qed

text \<open>
  A read replaces the default session or nothing: the sessions under other ids stay, and
  the page objects of the store stay where they are.
\<close>

lemma loadSessions_keeps_others:
  "\<exists>ps. heap (snd (loadSessions gen settings w)) = heap (snd w) @ ps
        \<and> (sessionId \<noteq> ''default'' \<longrightarrow>
             map_of (sessions (snd (loadSessions gen settings w))) sessionId
               = map_of (sessions (snd w)) sessionId)"
  by (auto simp: loadSessions_def Let_def update_conv' split: sum.splits prod.splits option.splits)

lemma pageList_append:
  assumes "storedPages m s" and "heap m' = heap m @ ps"
  shows "pageList m' s = pageList m s"
  using assms by (auto simp: storedPages_def pageList_def list_all_iff nth_append)

text \<open>
  C7 (amended). \<^verbatim>\<open>reorderPages\<close> first reads the session with \<^verbatim>\<open>getSession\<close>. If the
  order list holds an id that no page of the session read has, the call fails with
  "Page ... not found", naming an id of the list that matches no page, and the manager
  and the file system are exactly as \<^verbatim>\<open>getSession\<close> left them: no page number and no
  page list were written. For a session other than \<^verbatim>\<open>default\<close> that read changes
  nothing of the session, so the session is after the call what it was before the call:
  the same pages in the same order with the same numbers.
\<close>

theorem reorderPages_unknown_id_changes_nothing:
  "(getSession gen settings sessionId w = (w', Some session)
      \<and> list_ex (\<lambda>pageId. pageId \<notin> set (map page_id (pageList (snd w') session))) pageIds
     \<longrightarrow> (\<exists>pageId.
            reorderPages gen settings sessionId pageIds now w
              = (w', Inl (''Page '' @ pageId @ '' not found''))
            \<and> pageId \<in> set pageIds
            \<and> pageId \<notin> set (map page_id (pageList (snd w') session))))
   \<and> (sessionId \<noteq> ''default''
      \<and> map_of (sessions (snd w)) sessionId = Some before
      \<and> storedPages (snd w) before
      \<and> list_ex (\<lambda>pageId. pageId \<notin> set (map page_id (pageList (snd w) before))) pageIds
     \<longrightarrow> (\<exists>pageId.
            snd (reorderPages gen settings sessionId pageIds now w)
              = Inl (''Page '' @ pageId @ '' not found'')
            \<and> pageId \<in> set pageIds
            \<and> pageId \<notin> set (map page_id (pageList (snd w) before))
            \<and> map_of (sessions (snd (fst (reorderPages gen settings sessionId pageIds now w)))) sessionId
                = Some before
            \<and> pageList (snd (fst (reorderPages gen settings sessionId pageIds now w))) before
                = pageList (snd w) before))"
proof (intro conjI impI)
  assume "getSession gen settings sessionId w = (w', Some session)
      \<and> list_ex (\<lambda>pageId. pageId \<notin> set (map page_id (pageList (snd w') session))) pageIds"
  then show "\<exists>pageId.
            reorderPages gen settings sessionId pageIds now w
              = (w', Inl (''Page '' @ pageId @ '' not found''))
            \<and> pageId \<in> set pageIds
            \<and> pageId \<notin> set (map page_id (pageList (snd w') session))"
    using reorderPages_fails_after_read by blast
next
  assume a: "sessionId \<noteq> ''default''
      \<and> map_of (sessions (snd w)) sessionId = Some before
      \<and> storedPages (snd w) before
      \<and> list_ex (\<lambda>pageId. pageId \<notin> set (map page_id (pageList (snd w) before))) pageIds"
  define w1 where "w1 = loadSessions gen settings w"
  from loadSessions_keeps_others[of gen settings w sessionId] a obtain ps where
    heap: "heap (snd w1) = heap (snd w) @ ps"
    and same: "map_of (sessions (snd w1)) sessionId = Some before"
    by (auto simp: w1_def)
  have pl: "pageList (snd w1) before = pageList (snd w) before"
    using a heap by (intro pageList_append) simp_all
  have get: "getSession gen settings sessionId w = (w1, Some before)"
    by (simp add: getSession_def w1_def[symmetric] same)
  have "list_ex (\<lambda>pageId. pageId \<notin> set (map page_id (pageList (snd w1) before))) pageIds"
    using a by (simp add: pl)
  from reorderPages_fails_after_read[OF get this, of now] obtain pageId where
    "reorderPages gen settings sessionId pageIds now w = (w1, Inl (''Page '' @ pageId @ '' not found''))"
    "pageId \<in> set pageIds" "pageId \<notin> set (map page_id (pageList (snd w1) before))"
    by blast
  then show "\<exists>pageId.
            snd (reorderPages gen settings sessionId pageIds now w)
              = Inl (''Page '' @ pageId @ '' not found'')
            \<and> pageId \<in> set pageIds
            \<and> pageId \<notin> set (map page_id (pageList (snd w) before))
            \<and> map_of (sessions (snd (fst (reorderPages gen settings sessionId pageIds now w)))) sessionId
                = Some before
            \<and> pageList (snd (fst (reorderPages gen settings sessionId pageIds now w))) before
                = pageList (snd w) before"
    using same pl by (intro exI[of _ pageId]) simp
qed

lemma isScanFile_b: "isScanFile ''scan-b.pdf''"
  by (simp add: isScanFile_def validExtensions_def string_defs)

lemma readdir_twoPages: "readdirSync ''/tmp'' twoPagesFs = Inr [''scan-a.pdf'', ''scan-b.pdf'']"
  by (simp add: twoPagesFs_def dirStat_def fileStat_def fs_defs)

lemma stat_twoPages:
  "statSync (path_join ''/tmp'' ''scan-a.pdf'') twoPagesFs = Inr \<lparr>isDirectory = False, st_size = 10, mtime = 100\<rparr>"
  "statSync (path_join ''/tmp'' ''scan-b.pdf'') twoPagesFs = Inr \<lparr>isDirectory = False, st_size = 20, mtime = 300\<rparr>"
  "statSync ''/tmp/scan-a.pdf'' twoPagesFs = Inr \<lparr>isDirectory = False, st_size = 10, mtime = 100\<rparr>"
  "statSync ''/tmp/scan-b.pdf'' twoPagesFs = Inr \<lparr>isDirectory = False, st_size = 20, mtime = 300\<rparr>"
  "existsSync ''/tmp'' twoPagesFs" "existsSync ''/tmp/scan-a.pdf'' twoPagesFs"
  "existsSync ''/tmp/scan-b.pdf'' twoPagesFs"
  by (simp_all add: twoPagesFs_def fileStat_def dirStat_def fs_defs)

lemma load_twoPages:
  "loadSessions gen tmpSettings (twoPagesFs, m)
     = (twoPagesFs,
        m\<lparr>sessions := AList.update ''default''
               \<lparr>session_id = ''default'', session_name = ''Current Document'',
                pages = [length (heap m), Suc (length (heap m))], created = 100, modified = 300\<rparr>
               (sessions m),
           heap := heap m @ [pageA (gen (idCalls m)) 1, pageB (gen (Suc (idCalls m))) 2],
           idCalls := Suc (Suc (idCalls m))\<rparr>)"
  by (simp add: loadSessions_def tmpSettings_def readdir_twoPages stat_twoPages isScanFile_a
        isScanFile_b List.map_filter_def pageA_def pageB_def path_join_def Let_def upt_rec)

lemma twoPageDoc_eq:
  "twoPageDoc
     = (twoPagesFs,
        \<lparr>sessions = [(''default'', \<lparr>session_id = ''default'', session_name = ''Current Document'',
                                    pages = [3, 4], created = 100, modified = 300\<rparr>),
                      (''doc1'', \<lparr>session_id = ''doc1'', session_name = ''Document doc1'',
                                 pages = [2, 5], created = 1, modified = 2\<rparr>)],
         heap = [pageA ''rs5'' 1, pageB ''rt5'' 2, pageA ''ru5'' 1,
                 pageA ''rv5'' 1, pageB ''rw5'' 2, pageB ''rx5'' 2],
         idCalls = 6\<rparr>)"
proof -
  have first: "fst (addPageToSession sampleIds tmpSettings ''doc1'' ''/tmp/scan-a.pdf'' 1
                      (twoPagesFs, emptyManager))
     = (twoPagesFs,
        \<lparr>sessions = [(''default'', \<lparr>session_id = ''default'', session_name = ''Current Document'',
                                    pages = [0, 1], created = 100, modified = 300\<rparr>),
                      (''doc1'', \<lparr>session_id = ''doc1'', session_name = ''Document doc1'',
                                 pages = [2], created = 1, modified = 1\<rparr>)],
         heap = [pageA ''rs5'' 1, pageB ''rt5'' 2, pageA ''ru5'' 1],
         idCalls = 3\<rparr>)"
    by (simp add: addPageToSession_def getSession_def load_twoPages emptyManager_def stat_twoPages
          newSession_def basename_def pageA_def pageB_def sampleIds_values)
  show ?thesis
    unfolding twoPageDoc_def first
    by (simp add: addPageToSession_def getSession_def load_twoPages stat_twoPages
          basename_def pageA_def pageB_def sampleIds_values)
qed

text \<open>
  The amended C7 at a session \<^verbatim>\<open>doc1\<close> with the two pages \<^verbatim>\<open>ru5\<close> and \<^verbatim>\<open>rx5\<close>:
  the order list names the second page, then an unknown id, then the first page. The call
  fails on the unknown id, and the session has the same pages in the same order with the
  same numbers as before the call.
\<close>

theorem reorderPages_unknown_id_witness:
  "sessionPageIds (snd twoPageDoc) ''doc1'' = Some [''ru5'', ''rx5'']
   \<and> pageNumbers (snd twoPageDoc) ''doc1'' = Some [1, 2]
   \<and> map_option (storedPages (snd twoPageDoc)) (map_of (sessions (snd twoPageDoc)) ''doc1'') = Some True
   \<and> snd (reorderPages sampleIds tmpSettings ''doc1'' [''rx5'', ''nope'', ''ru5''] 9 twoPageDoc)
       = Inl ''Page nope not found''
   \<and> sessionPageIds
        (snd (fst (reorderPages sampleIds tmpSettings ''doc1'' [''rx5'', ''nope'', ''ru5''] 9 twoPageDoc)))
        ''doc1''
       = Some [''ru5'', ''rx5'']
   \<and> pageNumbers
        (snd (fst (reorderPages sampleIds tmpSettings ''doc1'' [''rx5'', ''nope'', ''ru5''] 9 twoPageDoc)))
        ''doc1''
       = Some [1, 2]"
proof -
  define before where "before = \<lparr>session_id = ''doc1'', session_name = ''Document doc1'',
                                  pages = [2, 5 :: nat], created = 1, modified = 2\<rparr>"
  have found: "map_of (sessions (snd twoPageDoc)) ''doc1'' = Some before"
    by (simp add: twoPageDoc_eq before_def)
  have stored: "storedPages (snd twoPageDoc) before"
    by (simp add: twoPageDoc_eq before_def storedPages_def)
  have ids: "map page_id (pageList (snd twoPageDoc) before) = [''ru5'', ''rx5'']"
    and nums: "map pageNumber (pageList (snd twoPageDoc) before) = [1, 2]"
    by (simp_all add: twoPageDoc_eq before_def pageList_def pageA_def pageB_def)
  have unknown: "list_ex (\<lambda>pageId. pageId \<notin> set (map page_id (pageList (snd twoPageDoc) before)))
                   [''rx5'', ''nope'', ''ru5'']"
    unfolding ids by simp
  have other: "''doc1'' \<noteq> ''default''" by simp
  define after where
    "after = reorderPages sampleIds tmpSettings ''doc1'' [''rx5'', ''nope'', ''ru5''] 9 twoPageDoc"
  from reorderPages_unknown_id_changes_nothing[of sampleIds tmpSettings "''doc1''" twoPageDoc
         "fst (getSession sampleIds tmpSettings ''doc1'' twoPageDoc)" before
         "[''rx5'', ''nope'', ''ru5'']" 9 before]
    other found stored unknown
  obtain pageId where
    r: "snd after = Inl (''Page '' @ pageId @ '' not found'')"
    and mem: "pageId \<in> set [''rx5'', ''nope'', ''ru5'']"
    and fresh: "pageId \<notin> set (map page_id (pageList (snd twoPageDoc) before))"
    and same: "map_of (sessions (snd (fst after))) ''doc1'' = Some before"
    and pl: "pageList (snd (fst after)) before = pageList (snd twoPageDoc) before"
    unfolding after_def by blast
  from mem fresh have "pageId = ''nope''" unfolding ids by auto
  with r have "snd after = Inl ''Page nope not found''" by simp
  moreover have "sessionPageIds (snd (fst after)) ''doc1'' = Some [''ru5'', ''rx5'']"
    "pageNumbers (snd (fst after)) ''doc1'' = Some [1, 2]"
    by (simp_all add: sessionPageIds_def pageNumbers_def same pl ids nums)
  moreover have "sessionPageIds (snd twoPageDoc) ''doc1'' = Some [''ru5'', ''rx5'']"
    "pageNumbers (snd twoPageDoc) ''doc1'' = Some [1, 2]"
    by (simp_all add: sessionPageIds_def pageNumbers_def found ids nums)
  moreover have "map_option (storedPages (snd twoPageDoc)) (map_of (sessions (snd twoPageDoc)) ''doc1'')
                   = Some True"
    by (simp add: found stored)
  ultimately show ?thesis unfolding after_def by blast
qed

lemma addedToDefault_eq:
  "addedToDefault
     = (onePageFs,
        \<lparr>sessions = [(''default'', \<lparr>session_id = ''default'', session_name = ''Current Document'',
                                    pages = [0, 1], created = 100, modified = 1\<rparr>)],
         heap = [pageA ''rs5'' 1, pageA ''rt5'' 2],
         idCalls = 2\<rparr>)"
  unfolding addedToDefault_def
  by (simp add: addPageToSession_def read_onePage emptyManager_def stat_onePage
        basename_def pageA_def sampleIds_values)

text \<open>
  C7 as stated fails: the default session holds two pages, numbered 1 and 2. A
  \<^verbatim>\<open>reorderPages\<close> call with an unknown id fails, and the session then holds one page:
  the read that opens the call has rebuilt it from the directory.
\<close>

theorem reorderPages_unknown_id_default_rebuilt:
  "pageNumbers (snd addedToDefault) ''default'' = Some [1, 2]
   \<and> sessionPageIds (snd addedToDefault) ''default'' = Some [''rs5'', ''rt5'']
   \<and> snd (reorderPages sampleIds tmpSettings ''default'' [''nope''] 5 addedToDefault)
       = Inl ''Page nope not found''
   \<and> pageNumbers (snd (fst (reorderPages sampleIds tmpSettings ''default'' [''nope''] 5 addedToDefault)))
        ''default''
       = Some [1]
   \<and> sessionPageIds (snd (fst (reorderPages sampleIds tmpSettings ''default'' [''nope''] 5 addedToDefault)))
        ''default''
       = Some [''ru5'']"
  unfolding addedToDefault_eq
  by (simp add: reorderPages_def read_onePage pageNumbers_def sessionPageIds_def pageList_def
        pageA_def sampleIds_values)

section \<open>Sessions: where the numbering does hold\<close>

lemma length_renumberRefs [simp]: "length (renumberRefs i rs h) = length h"
  by (induction rs arbitrary: i h) simp_all

lemma renumberRefs_other: "r \<notin> set rs \<Longrightarrow> renumberRefs i rs h ! r = h ! r"
  by (induction rs arbitrary: i h) auto

lemma renumberRefs_distinct:
  assumes "distinct rs" and "list_all (\<lambda>r. r < length h) rs"
  shows "map (\<lambda>r. pageNumber (renumberRefs i rs h ! r)) rs = [Suc i ..< Suc i + length rs]"
  using assms
proof (induction rs arbitrary: i h)
  case Nil
  then show ?case by simp
next
  case (Cons r rs)
  define h1 where "h1 = h[r := (h ! r)\<lparr>pageNumber := i + 1\<rparr>]"
  have "map (\<lambda>r. pageNumber (renumberRefs (Suc i) rs h1 ! r)) rs = [Suc (Suc i) ..< Suc (Suc i) + length rs]"
    using Cons.prems by (intro Cons.IH) (simp_all add: h1_def)
  moreover have "pageNumber (renumberRefs (Suc i) rs h1 ! r) = Suc i"
    using Cons.prems by (simp add: renumberRefs_other h1_def)
  moreover have "[Suc i ..< Suc i + length (r # rs)] = Suc i # [Suc (Suc i) ..< Suc (Suc i) + length rs]"
    using upt_conv_Cons[of "Suc i" "Suc i + length (r # rs)"] by simp
  ultimately show ?case by (simp add: h1_def)
qed

lemma collectPages_refs:
  assumes "collectPages h ps ids = Inr rs"
  shows "set rs \<subseteq> set ps \<and> map (\<lambda>r. page_id (h ! r)) rs = ids"
  using assms
proof (induction ids arbitrary: rs)
  case Nil
  then show ?case by simp
next
  case (Cons pid rest)
  from Cons.prems obtain r rs' where
    r: "List.find (\<lambda>r. page_id (h ! r) = pid) ps = Some r"
    and rest: "collectPages h ps rest = Inr rs'" and rs: "rs = r # rs'"
    by (auto split: option.splits sum.splits)
  from r have "r \<in> set ps" "page_id (h ! r) = pid"
    by (auto simp: find_Some_iff)
  with Cons.IH[OF rest] rs show ?case by simp
qed

lemma numbered_after_renumber:
  assumes "distinct rs" and "list_all (\<lambda>r. r < length (heap m)) rs"
    and "pages s' = rs" and "heap m' = renumberRefs 0 rs (heap m)"
  shows "wellNumbered m' s' \<and> validRefs m' s'"
  using assms renumberRefs_distinct[of rs "heap m" 0]
  by (simp add: wellNumbered_def validRefs_def pageList_def o_def del: upt_Suc)

lemma reorderPages_distinct_ids:
  assumes get: "getSession gen settings sessionId w = ((fs, m), Some s)"
    and refs: "list_all (\<lambda>r. r < length (heap m)) (pages s)"
    and ids: "distinct pageIds"
    and ok: "snd (reorderPages gen settings sessionId pageIds now w) = Inr ()"
  shows "\<exists>s'. map_of (sessions (snd (fst (reorderPages gen settings sessionId pageIds now w)))) sessionId = Some s'
              \<and> wellNumbered (snd (fst (reorderPages gen settings sessionId pageIds now w))) s'
              \<and> validRefs (snd (fst (reorderPages gen settings sessionId pageIds now w))) s'
              \<and> length (pages s') = length pageIds"
proof -
  from ok get obtain rs where rs: "collectPages (heap m) (pages s) pageIds = Inr rs"
    by (auto simp: reorderPages_def split: sum.splits)
  from collectPages_refs[OF rs] have sub: "set rs \<subseteq> set (pages s)"
    and eq: "map (\<lambda>r. page_id (heap m ! r)) rs = pageIds" by simp_all
  from eq ids have d: "distinct rs" by (metis distinct_map)
  from sub refs have v: "list_all (\<lambda>r. r < length (heap m)) rs" by (auto simp: list_all_iff)
  define s' where "s' = s\<lparr>pages := rs, modified := now\<rparr>"
  define m' where "m' = m\<lparr>sessions := AList.update sessionId s' (sessions m),
                          heap := renumberRefs 0 rs (heap m)\<rparr>"
  have r: "reorderPages gen settings sessionId pageIds now w = ((fs, m'), Inr ())"
    using get rs by (simp add: reorderPages_def s'_def m'_def)
  have "wellNumbered m' s' \<and> validRefs m' s'"
    using d v by (rule numbered_after_renumber) (simp_all add: s'_def m'_def)
  moreover have "map_of (sessions m') sessionId = Some s'"
    by (simp add: m'_def update_conv')
  moreover have "length (pages s') = length pageIds"
    using arg_cong[OF eq, of length] by (simp add: s'_def)
  ultimately show ?thesis unfolding r by auto
qed

lemma removePageFromSession_numbering:
  assumes get: "getSession gen settings sessionId w = ((fs, m), Some s)"
    and refs: "validRefs m s"
    and ok: "snd (removePageFromSession gen settings sessionId pageIdOrPath now w) = Inr ()"
  shows "\<exists>s'. map_of (sessions (snd (fst (removePageFromSession gen settings sessionId pageIdOrPath now w))))
                 sessionId = Some s'
              \<and> wellNumbered (snd (fst (removePageFromSession gen settings sessionId pageIdOrPath now w))) s'
              \<and> validRefs (snd (fst (removePageFromSession gen settings sessionId pageIdOrPath now w))) s'
              \<and> Suc (length (pages s')) = length (pages s)"
proof -
  define byId where "byId = findIndex (\<lambda>r. page_id (heap m ! r) = pageIdOrPath) (pages s)"
  define pageIndex where "pageIndex = (case byId of Some i \<Rightarrow> Some i
      | None \<Rightarrow> findIndex (\<lambda>r. filepath (heap m ! r) = pageIdOrPath) (pages s))"
  have fi: "findIndex P xs = Some i \<Longrightarrow> i < length xs" for P :: "nat \<Rightarrow> bool" and xs i
    by (induction xs arbitrary: i) (auto split: if_splits)
  from ok get obtain i fs' where i: "pageIndex = Some i"
    and r: "removePageFromSession gen settings sessionId pageIdOrPath now w
           = ((fs', m\<lparr>sessions := AList.update sessionId
                         (s\<lparr>pages := take i (pages s) @ drop (Suc i) (pages s), modified := now\<rparr>)
                         (sessions m),
                      heap := renumberRefs 0 (take i (pages s) @ drop (Suc i) (pages s)) (heap m)\<rparr>),
              Inr ())"
    by (auto simp: removePageFromSession_def Let_def byId_def[symmetric] pageIndex_def[symmetric]
             split: option.splits sum.splits if_splits)
  have lt: "i < length (pages s)"
    using i fi by (auto simp: pageIndex_def byId_def split: option.splits)
  define rs where "rs = take i (pages s) @ drop (Suc i) (pages s)"
  have set_rs: "set rs \<subseteq> set (pages s)"
    by (auto simp: rs_def dest: in_set_takeD in_set_dropD)
  have d: "distinct rs"
  proof -
    have "pages s = take i (pages s) @ (pages s ! i) # drop (Suc i) (pages s)"
      using lt by (simp add: id_take_nth_drop)
    then have "distinct (take i (pages s) @ (pages s ! i) # drop (Suc i) (pages s))"
      using refs by (simp add: validRefs_def)
    then show ?thesis by (simp add: rs_def)
  qed
  have v: "list_all (\<lambda>r. r < length (heap m)) rs"
    using refs set_rs by (auto simp: validRefs_def list_all_iff)
  define s' where "s' = s\<lparr>pages := rs, modified := now\<rparr>"
  define m' where "m' = m\<lparr>sessions := AList.update sessionId s' (sessions m),
                          heap := renumberRefs 0 rs (heap m)\<rparr>"
  have r': "removePageFromSession gen settings sessionId pageIdOrPath now w = ((fs', m'), Inr ())"
    using r by (simp add: m'_def s'_def rs_def)
  have "wellNumbered m' s' \<and> validRefs m' s'"
    using d v by (rule numbered_after_renumber) (simp_all add: s'_def m'_def)
  moreover have "map_of (sessions m') sessionId = Some s'"
    by (simp add: m'_def update_conv')
  moreover have "Suc (length (pages s')) = length (pages s)"
    using lt by (simp add: s'_def rs_def)
  ultimately show ?thesis unfolding r' by auto
qed

lemma addPageToSession_numbering:
  assumes get: "getSession gen settings sessionId w = ((fs, m), Some s)"
    and refs: "list_all (\<lambda>r. r < length (heap m)) (pages s)"
    and numbered: "wellNumbered m s"
    and ok: "snd (addPageToSession gen settings sessionId pageFilepath now w) = Inr ()"
  shows "\<exists>s'. map_of (sessions (snd (fst (addPageToSession gen settings sessionId pageFilepath now w))))
                 sessionId = Some s'
              \<and> wellNumbered (snd (fst (addPageToSession gen settings sessionId pageFilepath now w))) s'
              \<and> length (pages s') = Suc (length (pages s))"
proof -
  from ok get obtain stats where st: "existsSync pageFilepath fs"
      "statSync pageFilepath fs = Inr stats" "st_size stats \<noteq> 0"
    by (auto simp: addPageToSession_def Let_def split: sum.splits if_splits)
  have r: "addPageToSession gen settings sessionId pageFilepath now w
          = ((fs, m\<lparr>sessions := AList.update sessionId
                        (s\<lparr>pages := pages s @ [length (heap m)], modified := now\<rparr>) (sessions m),
                     heap := heap m @ [\<lparr>page_id = gen (idCalls m), filename = basename pageFilepath,
                                        filepath = pageFilepath, timestamp = mtime stats,
                                        page_size = st_size stats,
                                        pageNumber = length (pages s) + 1\<rparr>],
                     idCalls := Suc (idCalls m)\<rparr>),
             Inr ())"
    using get st by (simp add: addPageToSession_def Let_def)
  have old: "map (pageNumber \<circ> (!) (heap m @ [p])) (pages s) = map (pageNumber \<circ> (!) (heap m)) (pages s)"
    for p
    using refs by (auto simp: list_all_iff nth_append)
  have up: "[Suc 0 ..< Suc (Suc n)] = [Suc 0 ..< Suc n] @ [Suc n]" for n
    by simp
  show ?thesis
    unfolding r using numbered
    by (simp add: update_conv' wellNumbered_def pageList_def old up del: upt_Suc)
qed


end
